theory Spec2Isabelle
  imports Complex_Main "HOL-Library.Multiset" "HOL-Library.AList"
begin

section \<open>Instants, time zones and the local clock\<close>

text \<open>
  A JavaScript \<^verbatim>\<open>Date\<close> is a number of milliseconds since the epoch
  (\<^verbatim>\<open>getTime()\<close>); the model keeps that integer. Date strings of trips and
  expenses are kept as the instants \<^verbatim>\<open>new Date(s)\<close> parses them to.
  \<^verbatim>\<open>toISOString\<close> works on UTC. The methods \<^verbatim>\<open>setHours\<close>,
  \<^verbatim>\<open>getDay\<close>, \<^verbatim>\<open>getDate\<close>, \<^verbatim>\<open>setDate\<close>, \<^verbatim>\<open>getMonth\<close>
  and \<^verbatim>\<open>getFullYear\<close> work on local time, as ECMAScript defines it from the
  runtime's time zone:
  \<^item> \<^verbatim>\<open>LocalTime(t) = t + LocalTZA(t, true)\<close>, the offset in force at the instant;
  \<^item> \<^verbatim>\<open>UTC(tl) = tl - LocalTZA(tl, false)\<close>, the offset chosen for a local time
    (the one before the change, where a local time is skipped or repeated).
  A zone is the pair of these two offset functions, so that an offset may change with
  daylight saving. In every zone the same local time on the next local day is a later
  instant (the offset never changes by a day or more within a day); the loops that step
  day by day end because of it.
\<close>

type_synonym instant = int

definition DAY :: int where
  "DAY = 1000 * 3600 * 24"

typedef zone =
  "{p :: (int \<Rightarrow> int) \<times> (int \<Rightarrow> int). \<forall>t. snd p (t + fst p t + DAY) - fst p t < DAY}"
  by (rule exI[of _ "(\<lambda>_. 0, \<lambda>_. 0)"]) (simp add: DAY_def)

setup_lifting type_definition_zone

lift_definition offsetAt :: "zone \<Rightarrow> instant \<Rightarrow> int" is fst .

lift_definition offsetOf :: "zone \<Rightarrow> int \<Rightarrow> int" is snd .

lift_definition fixedZone :: "int \<Rightarrow> zone" is "\<lambda>c. (\<lambda>_. c, \<lambda>_. c)"
  \<comment> \<open>a zone whose offset from UTC never changes\<close>
  by (simp add: DAY_def)

definition localTime :: "zone \<Rightarrow> instant \<Rightarrow> int" where
  "localTime z t = t + offsetAt z t"

definition utcOf :: "zone \<Rightarrow> int \<Rightarrow> instant" where
  "utcOf z lt = lt - offsetOf z lt"


definition localDay :: "zone \<Rightarrow> instant \<Rightarrow> int" where
  \<comment> \<open>the number of the local calendar day an instant falls on (day 0 is 1970-01-01)\<close>
  "localDay z t = localTime z t div DAY"

definition timeWithinDay :: "zone \<Rightarrow> instant \<Rightarrow> int" where
  "timeWithinDay z t = localTime z t mod DAY"

definition isoDate :: "instant \<Rightarrow> int" where
  \<comment> \<open>\<^verbatim>\<open>d.toISOString().split('T')[0]\<close>: the UTC calendar day, kept as its day number\<close>
  "isoDate t = t div DAY"

definition setHoursEnd :: "zone \<Rightarrow> instant \<Rightarrow> instant" where
  \<comment> \<open>\<^verbatim>\<open>d.setHours(23, 59, 59, 999)\<close>\<close>
  "setHoursEnd z t = utcOf z (localDay z t * DAY + (DAY - 1))"

definition setHoursStart :: "zone \<Rightarrow> instant \<Rightarrow> instant" where
  \<comment> \<open>\<^verbatim>\<open>d.setHours(0, 0, 0, 0)\<close>\<close>
  "setHoursStart z t = utcOf z (localDay z t * DAY)"

definition getDay :: "zone \<Rightarrow> instant \<Rightarrow> int" where
  \<comment> \<open>\<^verbatim>\<open>d.getDay()\<close>: 0 is Sunday, 6 is Saturday; 1970-01-01 was a Thursday\<close>
  "getDay z t = (localDay z t + 4) mod 7"

text \<open>
  The civil calendar (proleptic Gregorian), from a day number to year, month and day of
  the month. Years are counted from 1 March inside 400-year eras of 146097 days.
\<close>

definition civil :: "int \<Rightarrow> int \<times> int \<times> int" where
  "civil z =
     (let z' = z + 719468;
          era = z' div 146097;
          doe = z' mod 146097;
          yoe = (doe - doe div 1460 + doe div 36524 - doe div 146096) div 365;
          doy = doe - (365 * yoe + yoe div 4 - yoe div 100);
          mp = (5 * doy + 2) div 153;
          d = doy - (153 * mp + 2) div 5 + 1;
          m = (if mp < 10 then mp + 3 else mp - 9);
          y = yoe + era * 400 + (if m \<le> 2 then 1 else 0)
      in (y, m, d))"

definition getFullYear :: "zone \<Rightarrow> instant \<Rightarrow> int" where
  "getFullYear z t = fst (civil (localDay z t))"

definition getMonth :: "zone \<Rightarrow> instant \<Rightarrow> int" where
  \<comment> \<open>\<^verbatim>\<open>d.getMonth()\<close>: 0 is January\<close>
  "getMonth z t = fst (snd (civil (localDay z t))) - 1"

definition getDate :: "zone \<Rightarrow> instant \<Rightarrow> int" where
  \<comment> \<open>\<^verbatim>\<open>d.getDate()\<close>: the day of the month, from 1\<close>
  "getDate z t = snd (snd (civil (localDay z t)))"

definition setDate :: "zone \<Rightarrow> instant \<Rightarrow> int \<Rightarrow> instant" where
  \<comment> \<open>\<^verbatim>\<open>d.setDate(n)\<close>: the instant of the same local time of day on day \<open>n\<close> of
      the local month of \<open>d\<close> (an \<open>n\<close> outside the month rolls over into the months
      around it); the local day moves by \<open>n - getDate\<close>, the time within the day stays\<close>
  "setDate z t n = utcOf z ((localDay z t + (n - getDate z t)) * DAY + timeWithinDay z t)"

section \<open>The data model\<close>

record trip =
  startDate :: instant
  endDate :: instant
  mainCurrency :: string
  totalBudget :: real
  countries :: "string list"

record expense =
  amount :: real
  currency :: string
  category :: string
  description :: string
  date :: instant
  country :: "string option"

text \<open>
  \<^verbatim>\<open>convert(amount, from, to)\<close> comes from the hook \<^verbatim>\<open>useCurrencyConverter\<close>,
  which is outside the analytics code: every function takes it as a parameter.
\<close>

type_synonym converter = "real \<Rightarrow> string \<Rightarrow> string \<Rightarrow> real"

definition inMain :: "converter \<Rightarrow> string \<Rightarrow> expense \<Rightarrow> real" where
  \<comment> \<open>\<^verbatim>\<open>convert(e.amount, e.currency, trip.mainCurrency)\<close>\<close>
  "inMain convert main e = convert (amount e) (currency e) main"

definition getOr0 :: "('k \<rightharpoonup> real) \<Rightarrow> 'k \<Rightarrow> real" where
  \<comment> \<open>\<^verbatim>\<open>m.get(k) || 0\<close>\<close>
  "getOr0 m k = (case m k of None \<Rightarrow> 0 | Some v \<Rightarrow> v)"

section \<open>AdvancedBudgetChart: the day buckets of the burn curve\<close>

definition totalTripDuration :: "trip \<Rightarrow> real" where
  "totalTripDuration t =
     max 1 (real_of_int (endDate t - startDate t) / real_of_int DAY + 1)"

definition idealDailyBurn :: "trip \<Rightarrow> real" where
  "idealDailyBurn t =
     (if totalBudget t > 0 then totalBudget t / totalTripDuration t else 0)"

definition dailySpending :: "converter \<Rightarrow> string \<Rightarrow> expense list \<Rightarrow> (int \<rightharpoonup> real)" where
  "dailySpending convert main expenses =
     fold (\<lambda>e m. m(isoDate (date e) \<mapsto> getOr0 m (isoDate (date e)) + inMain convert main e))
       expenses Map.empty"

text \<open>
  One point of the chart. The source's keys are \<^verbatim>\<open>fullDate\<close>,
  \<^verbatim>\<open>'Spesa Giornaliera'\<close> (null on a day with no spend),
  \<^verbatim>\<open>'Spesa Cumulativa'\<close> and \<^verbatim>\<open>'Budget Cumulativo Ideale'\<close>; the label
  \<^verbatim>\<open>date\<close> is the locale's rendering of \<^verbatim>\<open>fullDate\<close> and is left out.
\<close>

record dataPoint =
  fullDate :: instant
  spesaGiornaliera :: "real option"
  spesaCumulativa :: real
  budgetCumulativoIdeale :: real

function budgetLoop ::
  "zone \<Rightarrow> (int \<rightharpoonup> real) \<Rightarrow> real \<Rightarrow> instant \<Rightarrow> instant \<Rightarrow> nat \<Rightarrow> real \<Rightarrow> dataPoint list" where
  "budgetLoop z spending burn lastDate currentDate daysElapsed cumulativeSpent =
     (if currentDate \<le> lastDate then
        (let daysElapsed' = daysElapsed + 1;
             spentToday = getOr0 spending (isoDate currentDate);
             cumulativeSpent' = cumulativeSpent + spentToday
         in \<lparr>fullDate = currentDate,
              spesaGiornaliera = (if spentToday > 0 then Some spentToday else None),
              spesaCumulativa = cumulativeSpent',
              budgetCumulativoIdeale = burn * real daysElapsed'\<rparr>
            # budgetLoop z spending burn lastDate
                (setDate z currentDate (getDate z currentDate + 1))
                daysElapsed' cumulativeSpent')
      else [])"
  by pat_completeness auto
termination
proof (relation "measure (\<lambda>(z, spending, burn, lastDate, currentDate, daysElapsed, cumulativeSpent).
        nat (lastDate - currentDate + 1))", goal_cases)
  case 1
  show ?case by simp
next
  case (2 z spending burn lastDate currentDate daysElapsed cumulativeSpent x xa xb)
  let ?lt = "currentDate + fst (Rep_zone z) currentDate"
  have "?lt div DAY * DAY + ?lt mod DAY = ?lt"
    by (rule div_mult_mod_eq)
  then have "(?lt div DAY + 1) * DAY + ?lt mod DAY = ?lt + DAY"
    by (simp add: algebra_simps)
  moreover have "snd (Rep_zone z) (?lt + DAY) - fst (Rep_zone z) currentDate < DAY"
    using Rep_zone[of z] by simp
  ultimately have "currentDate < setDate z currentDate (getDate z currentDate + 1)"
    by (simp add: setDate_def utcOf_def localDay_def timeWithinDay_def localTime_def
          offsetAt.rep_eq offsetOf.rep_eq)
  with 2(1) show ?case by simp
qed

declare budgetLoop.simps [simp del]

definition chartData_AdvancedBudget :: "zone \<Rightarrow> converter \<Rightarrow> instant \<Rightarrow> trip \<Rightarrow> expense list \<Rightarrow> dataPoint list" where
  "chartData_AdvancedBudget z convert now t expenses =
     (let tripStart = startDate t;
          tripEnd = endDate t;
          today = setHoursEnd z now;
          lastDate = (if today < tripEnd then today else tripEnd)
      in if lastDate < tripStart then []
         else budgetLoop z (dailySpending convert (mainCurrency t) expenses)
                (idealDailyBurn t) lastDate tripStart 0 0)"

section \<open>Plain objects used as dictionaries\<close>

text \<open>
  \<^verbatim>\<open>{ [key: string]: number }\<close>: an object whose own keys
  \<^verbatim>\<open>Object.entries\<close> lists in the order they were first set (the keys here are
  category names, country names and ISO dates, none of them an array index). It is an
  association list with distinct keys; \<^const>\<open>AList.update\<close> overwrites the value of
  a key where it stands and appends a new key at the end.
\<close>

definition addTo :: "('k \<times> real) list \<Rightarrow> 'k \<Rightarrow> real \<Rightarrow> ('k \<times> real) list" where
  \<comment> \<open>\<^verbatim>\<open>obj[k] = (obj[k] || 0) + a\<close>\<close>
  "addTo obj k a = AList.update k ((case map_of obj k of None \<Rightarrow> 0 | Some v \<Rightarrow> v) + a) obj"

definition addCount :: "('k \<times> nat) list \<Rightarrow> 'k \<Rightarrow> ('k \<times> nat) list" where
  \<comment> \<open>\<^verbatim>\<open>obj[k] = (obj[k] || 0) + 1\<close>\<close>
  "addCount obj k = AList.update k ((case map_of obj k of None \<Rightarrow> 0 | Some n \<Rightarrow> n) + 1) obj"

definition firstOf :: "'a list \<Rightarrow> 'a option" where
  \<comment> \<open>\<^verbatim>\<open>xs[0]\<close>, undefined on the empty array\<close>
  "firstOf xs = (case xs of [] \<Rightarrow> None | x # _ \<Rightarrow> Some x)"

text \<open>
  \<^verbatim>\<open>xs.sort((a, b) => b.v - a.v)\<close> sorts by descending \<open>v\<close> and is stable;
  so is \<^const>\<open>sort_key\<close> on the negated key.
\<close>

definition sortDesc :: "('a \<Rightarrow> real) \<Rightarrow> 'a list \<Rightarrow> 'a list" where
  "sortDesc v xs = sort_key (\<lambda>x. - v x) xs"

section \<open>CategoryChart: the slices per category\<close>

record categoryEntry =
  name :: string
  icon :: string

definition defaultIcon :: string where
  \<comment> \<open>stands for the emoji U+1F4B8 of the source\<close>
  "defaultIcon = ''money-with-wings''"

definition findIcon :: "categoryEntry list \<Rightarrow> string \<Rightarrow> string option" where
  \<comment> \<open>\<^verbatim>\<open>categories.find(c => c.name === n)?.icon\<close>\<close>
  "findIcon categories n = map_option icon (find (\<lambda>c. name c = n) categories)"

record categorySlice =
  name_slice :: string
  amount_slice :: real
  percentage :: real
  icon_slice :: string

definition spendingByCategory :: "converter \<Rightarrow> string \<Rightarrow> expense list \<Rightarrow> (string \<times> real) list" where
  "spendingByCategory convert main expenses =
     fold (\<lambda>exp spending. addTo spending (category exp) (inMain convert main exp)) expenses []"

definition dataByCategory ::
  "converter \<Rightarrow> categoryEntry list \<Rightarrow> string \<Rightarrow> expense list \<Rightarrow> categorySlice list" where
  "dataByCategory convert categories main expenses =
     (let spending = spendingByCategory convert main expenses;
          totalSpent = sum_list (map snd spending)
      in sortDesc amount_slice
           (map (\<lambda>(categoryName, amount).
                   \<lparr>name_slice = categoryName,
                    amount_slice = amount,
                    percentage = (if totalSpent > 0 then (amount / totalSpent) * 100 else 0),
                    icon_slice = (case findIcon categories categoryName of
                                    None \<Rightarrow> defaultIcon
                                  | Some i \<Rightarrow> if i = [] then defaultIcon else i)\<rparr>)
              spending))"

section \<open>StatsSummary: the statistical highlights\<close>

text \<open>
  The fields of the object \<^verbatim>\<open>summary\<close>; \<open>None\<close> is JavaScript's
  \<^verbatim>\<open>null\<close>. The largest expense carries its \<^verbatim>\<open>mainAmount\<close>, the day
  its ISO date and amount, the category its name, count and icon.
\<close>

record summaryStats =
  largestExpense :: "(expense \<times> real) option"
  highestSpendingDay :: "(int \<times> real) option"
  mostFrequentCategory :: "(string \<times> nat \<times> string option) option"
  avgTransaction :: "real option"

definition summary ::
  "converter \<Rightarrow> categoryEntry list \<Rightarrow> string \<Rightarrow> expense list \<Rightarrow> summaryStats" where
  "summary convert categories main expenses =
     (if length expenses = 0 then
        \<lparr>largestExpense = None, highestSpendingDay = None,
         mostFrequentCategory = None, avgTransaction = Some 0\<rparr>
      else
        (let expensesInMainCurrency = map (\<lambda>e. (e, inMain convert main e)) expenses;
             largest = firstOf (sortDesc snd expensesInMainCurrency);
             spendingByDay =
               fold (\<lambda>(e, mainAmount) obj. addTo obj (isoDate (date e)) mainAmount)
                 expensesInMainCurrency [];
             highestSpendingDayEntry = firstOf (sortDesc snd spendingByDay);
             categoryCounts = fold (\<lambda>e obj. addCount obj (category e)) expenses [];
             mostFrequentCategoryEntry = firstOf (sortDesc (\<lambda>(c, n). real n) categoryCounts);
             totalSpent = sum_list (map snd expensesInMainCurrency);
             avg = totalSpent / real (length expenses)
         in \<lparr>largestExpense = largest,
              highestSpendingDay = highestSpendingDayEntry,
              mostFrequentCategory =
                map_option (\<lambda>(c, n). (c, n, findIcon categories c)) mostFrequentCategoryEntry,
              avgTransaction = Some avg\<rparr>))"

section \<open>Dashboard: the filter on the sorted expenses\<close>

datatype dateFilter = All | Today | Week | Month

definition firstDayOfWeek :: "zone \<Rightarrow> instant \<Rightarrow> instant" where
  "firstDayOfWeek z now =
     (let dayOfWeek = getDay z now;
          diff = getDate z now - dayOfWeek + (if dayOfWeek = 0 then -6 else 1)
      in setHoursStart z (setDate z now diff))"

text \<open>
  \<^verbatim>\<open>e.date\<close> is the ISO string of an instant, so
  \<^verbatim>\<open>e.date.startsWith(todayStr)\<close> compares UTC calendar days.
\<close>

definition filteredExpenses ::
  "zone \<Rightarrow> instant \<Rightarrow> dateFilter \<Rightarrow> string list \<Rightarrow> expense list \<Rightarrow> expense list" where
  "filteredExpenses z now dateFilter selectedCategories sortedExpenses =
     (let expenses =
            (case dateFilter of
               Today \<Rightarrow> filter (\<lambda>e. isoDate (date e) = isoDate now) sortedExpenses
             | Week \<Rightarrow> filter (\<lambda>e. date e \<ge> firstDayOfWeek z now) sortedExpenses
             | Month \<Rightarrow>
                 filter (\<lambda>e. getMonth z (date e) = getMonth z now \<and>
                             getFullYear z (date e) = getFullYear z now) sortedExpenses
             | All \<Rightarrow> sortedExpenses)
      in if length selectedCategories > 0
         then filter (\<lambda>e. category e \<in> set selectedCategories) expenses
         else expenses)"

section \<open>ExpenseCalendarHeatmap: day totals and colour bands\<close>

definition dailyStep ::
  "converter \<Rightarrow> string \<Rightarrow> expense \<Rightarrow> (int \<rightharpoonup> real) \<times> real \<Rightarrow> (int \<rightharpoonup> real) \<times> real" where
  \<comment> \<open>the body of \<^verbatim>\<open>expenses.forEach\<close>, on the pair of \<^verbatim>\<open>data\<close> and \<^verbatim>\<open>max\<close>\<close>
  "dailyStep convert main expense =
     (\<lambda>(data, mx).
        (let d = isoDate (date expense);
             amount = inMain convert main expense;
             currentTotal = getOr0 data d;
             newTotal = currentTotal + amount
         in (data(d \<mapsto> newTotal), if newTotal > mx then newTotal else mx)))"

definition dailyDataMax :: "converter \<Rightarrow> string \<Rightarrow> expense list \<Rightarrow> (int \<rightharpoonup> real) \<times> real" where
  \<comment> \<open>the pair \<^verbatim>\<open>{ dailyData: data, maxSpend: max }\<close>\<close>
  "dailyDataMax convert main expenses = fold (dailyStep convert main) expenses (Map.empty, 0)"

definition dailyData :: "converter \<Rightarrow> string \<Rightarrow> expense list \<Rightarrow> (int \<rightharpoonup> real)" where
  "dailyData convert main expenses = fst (dailyDataMax convert main expenses)"

definition maxSpend :: "converter \<Rightarrow> string \<Rightarrow> expense list \<Rightarrow> real" where
  "maxSpend convert main expenses = snd (dailyDataMax convert main expenses)"

datatype colour =
  SurfaceVariant50 | PrimaryContainer40 | PrimaryContainer70 | PrimaryContainer | Primary

text \<open>
  \<^verbatim>\<open>amount / maxSpend\<close> is IEEE division: with \<^verbatim>\<open>amount > 0\<close> it is
  \<^verbatim>\<open>Infinity\<close> for a zero \<^verbatim>\<open>maxSpend\<close> and negative for a negative one, so
  that \<^verbatim>\<open>Math.sqrt\<close> gives \<^verbatim>\<open>Infinity\<close> or \<^verbatim>\<open>NaN\<close> and none of the
  three comparisons holds.
\<close>

definition getColor :: "real \<Rightarrow> real \<Rightarrow> colour" where
  \<comment> \<open>\<open>mx\<close> is the \<^verbatim>\<open>maxSpend\<close> the closure reads\<close>
  "getColor mx amnt =
     (if amnt \<le> 0 then SurfaceVariant50
      else if mx \<le> 0 then Primary
      else (let intensity = sqrt (amnt / mx)
            in if intensity < 0.25 then PrimaryContainer40
               else if intensity < 0.5 then PrimaryContainer70
               else if intensity < 0.75 then PrimaryContainer
               else Primary))"

section \<open>CountrySpendChart: the totals per country\<close>

record countrySlice =
  country_slice :: string
  amount_country :: real

definition resolveCountry :: "(string \<rightharpoonup> string) \<Rightarrow> expense \<Rightarrow> string option" where
  \<comment> \<open>\<^verbatim>\<open>e.country || CURRENCY_TO_COUNTRY[e.currency]\<close>, \<open>None\<close> when the result is
      falsy (undefined or the empty string); the table \<^verbatim>\<open>CURRENCY_TO_COUNTRY\<close> of
      \<^verbatim>\<open>constants\<close> is a parameter\<close>
  "resolveCountry currencyToCountry e =
     (let c = (case country e of
                 Some c \<Rightarrow> if c \<noteq> [] then Some c else currencyToCountry (currency e)
               | None \<Rightarrow> currencyToCountry (currency e))
      in case c of Some c' \<Rightarrow> if c' \<noteq> [] then Some c' else None | None \<Rightarrow> None)"

definition countryStep ::
  "(string \<rightharpoonup> string) \<Rightarrow> converter \<Rightarrow> trip \<Rightarrow> expense \<Rightarrow> (string \<times> real) list \<Rightarrow> (string \<times> real) list" where
  \<comment> \<open>the body of \<^verbatim>\<open>expenses.forEach\<close>; \<^verbatim>\<open>hasOwnProperty\<close> is the lookup\<close>
  "countryStep currencyToCountry convert t e obj =
     (case resolveCountry currencyToCountry e of
        None \<Rightarrow> obj
      | Some c \<Rightarrow>
          (case map_of obj c of
             None \<Rightarrow> obj
           | Some v \<Rightarrow> AList.update c (v + inMain convert (mainCurrency t) e) obj))"

definition spendingByCountry ::
  "(string \<rightharpoonup> string) \<Rightarrow> converter \<Rightarrow> trip \<Rightarrow> expense list \<Rightarrow> (string \<times> real) list" where
  "spendingByCountry currencyToCountry convert t expenses =
     fold (countryStep currencyToCountry convert t) expenses
       (fold (\<lambda>c obj. AList.update c 0 obj) (countries t) [])"

definition chartData_CountrySpend ::
  "(string \<rightharpoonup> string) \<Rightarrow> converter \<Rightarrow> trip \<Rightarrow> expense list \<Rightarrow> countrySlice list" where
  "chartData_CountrySpend currencyToCountry convert t expenses =
     (if length (countries t) \<le> 1 then []
      else sortDesc amount_country
             (filter (\<lambda>item. amount_country item > 0)
                (map (\<lambda>(c, a). \<lparr>country_slice = c, amount_country = a\<rparr>)
                   (spendingByCountry currencyToCountry convert t expenses))))"

section \<open>AIInsights and AIForecast: the payloads\<close>

definition toFixed2 :: "real \<Rightarrow> real" where
  \<comment> \<open>\<^verbatim>\<open>parseFloat(x.toFixed(2))\<close>: two decimals, a tie rounded away from zero\<close>
  "toFixed2 x =
     (if x < 0 then - (of_int \<lfloor>- x * 100 + 1 / 2\<rfloor> / 100) else of_int \<lfloor>x * 100 + 1 / 2\<rfloor> / 100)"

definition mathRound :: "real \<Rightarrow> int" where
  \<comment> \<open>\<^verbatim>\<open>Math.round\<close>: a tie goes up\<close>
  "mathRound x = \<lfloor>x + 1 / 2\<rfloor>"

definition totalSpentOf :: "converter \<Rightarrow> string \<Rightarrow> expense list \<Rightarrow> real" where
  \<comment> \<open>\<^verbatim>\<open>expenses.reduce((sum, exp) => sum + convert(...), 0)\<close>\<close>
  "totalSpentOf convert main expenses = fold (\<lambda>exp sum. sum + inMain convert main exp) expenses 0"

record dataSummaryPayload =
  totalSpent_summary :: real
  numberOfExpenses :: nat
  durationDays :: int
  spendingByCategory_summary :: "(string \<times> real) list"

definition dataSummary :: "converter \<Rightarrow> string \<Rightarrow> expense list \<Rightarrow> dataSummaryPayload option" where
  "dataSummary convert main expenses =
     (if length expenses < 3 then None
      else
        (let totalSpent = totalSpentOf convert main expenses;
             byCategory = spendingByCategory convert main expenses;
             firstDate = date (expenses ! (length expenses - 1));
             lastDate = date (expenses ! 0);
             duration = mathRound (real_of_int (lastDate - firstDate) / real_of_int DAY) + 1
         in Some \<lparr>totalSpent_summary = toFixed2 totalSpent,
                   numberOfExpenses = length expenses,
                   durationDays = duration,
                   spendingByCategory_summary = map (\<lambda>(key, v). (key, toFixed2 v)) byCategory\<rparr>))"

record recentExpense =
  description_recent :: string
  category_recent :: string
  amount_recent :: real

record analysisPayload =
  totalBudget_analysis :: real
  mainCurrency_analysis :: string
  totalDays :: real
  daysElapsed_analysis :: real
  daysRemaining :: real
  totalSpent_analysis :: real
  currentDailyAvg :: real
  recentExpenses :: "recentExpense list"

definition analysisData :: "converter \<Rightarrow> instant \<Rightarrow> trip \<Rightarrow> expense list \<Rightarrow> analysisPayload option" where
  "analysisData convert now t expenses =
     (if length expenses < 3 then None
      else
        (let totalSpent = totalSpentOf convert (mainCurrency t) expenses;
             tripStart = startDate t;
             tripEnd = endDate t;
             today = now
         in if today > tripEnd then None
            else
              (let total = max 1 (real_of_int (tripEnd - tripStart) / real_of_int DAY + 1);
                   elapsed0 = real_of_int (today - tripStart) / real_of_int DAY + 1;
                   elapsed = max 1 (real_of_int \<lceil>elapsed0\<rceil>);
                   remaining = max 0 (total - elapsed);
                   avg = totalSpent / elapsed
               in Some \<lparr>totalBudget_analysis = totalBudget t,
                         mainCurrency_analysis = mainCurrency t,
                         totalDays = total,
                         daysElapsed_analysis = elapsed,
                         daysRemaining = remaining,
                         totalSpent_analysis = toFixed2 totalSpent,
                         currentDailyAvg = toFixed2 avg,
                         recentExpenses =
                           map (\<lambda>e. \<lparr>description_recent = description e,
                                       category_recent = category e,
                                       amount_recent = toFixed2 (inMain convert (mainCurrency t) e)\<rparr>)
                             (take 15 expenses)\<rparr>)))"

section \<open>Definitions that follow the spec's words\<close>

text \<open>The spec's formula for the ideal cumulative budget of the bucket at position \<open>k\<close>.\<close>

definition spec_wholeDaysBetween :: "instant \<Rightarrow> instant \<Rightarrow> int" where
  "spec_wholeDaysBetween a b = (b - a) div DAY"

definition spec_idealCumulativeBudget :: "trip \<Rightarrow> nat \<Rightarrow> real" where
  "spec_idealCumulativeBudget t k =
     (totalBudget t / max 1 (real_of_int (spec_wholeDaysBetween (startDate t) (endDate t) + 1)))
       * real k"

definition spec_totalAmount :: "converter \<Rightarrow> string \<Rightarrow> expense list \<Rightarrow> real" where
  \<comment> \<open>the total converted amount of an expense list\<close>
  "spec_totalAmount convert main expenses = sum_list (map (inMain convert main) expenses)"

definition spec_categoryAmount :: "converter \<Rightarrow> string \<Rightarrow> expense list \<Rightarrow> string \<Rightarrow> real" where
  \<comment> \<open>the converted amount of one category: the sum over its expenses\<close>
  "spec_categoryAmount convert main expenses c =
     sum_list (map (inMain convert main) (filter (\<lambda>e. category e = c) expenses))"

definition spec_percentageOfTotal :: "real \<Rightarrow> real \<Rightarrow> real" where
  \<comment> \<open>\<open>amount / total * 100\<close>, and 0 when the total is 0\<close>
  "spec_percentageOfTotal a tot = (if tot = 0 then 0 else a / tot * 100)"

definition spec_dayTotal :: "converter \<Rightarrow> string \<Rightarrow> expense list \<Rightarrow> int \<Rightarrow> real" where
  \<comment> \<open>\<open>spentToday\<close>: the converted total of the expenses dated on the UTC day \<open>d\<close>\<close>
  "spec_dayTotal convert main expenses d =
     sum_list (map (inMain convert main) (filter (\<lambda>e. isoDate (date e) = d) expenses))"

definition spec_intensity :: "real \<Rightarrow> real \<Rightarrow> real" where
  \<comment> \<open>\<open>sqrt (spentToday / maxSpentAnyDay)\<close>, and 0 when \<open>maxSpentAnyDay\<close> is 0\<close>
  "spec_intensity spentToday maxSpentAnyDay =
     (if maxSpentAnyDay = 0 then 0 else sqrt (spentToday / maxSpentAnyDay))"

definition spec_band :: "real \<Rightarrow> colour" where
  \<comment> \<open>the four bands, by the thresholds 0.25, 0.5 and 0.75\<close>
  "spec_band i =
     (if i < 0.25 then PrimaryContainer40
      else if i < 0.5 then PrimaryContainer70
      else if i < 0.75 then PrimaryContainer
      else Primary)"

definition spec_countryTotal ::
  "(string \<rightharpoonup> string) \<Rightarrow> converter \<Rightarrow> trip \<Rightarrow> expense list \<Rightarrow> string \<Rightarrow> real" where
  \<comment> \<open>the converted total of the expenses whose country resolves to \<open>c\<close>\<close>
  "spec_countryTotal currencyToCountry convert t expenses c =
     sum_list (map (inMain convert (mainCurrency t))
       (filter (\<lambda>e. resolveCountry currencyToCountry e = Some c) expenses))"

definition spec_counted :: "(string \<rightharpoonup> string) \<Rightarrow> trip \<Rightarrow> expense \<Rightarrow> bool" where
  \<comment> \<open>the expense's country resolves, to a country the trip declares\<close>
  "spec_counted currencyToCountry t e =
     (case resolveCountry currencyToCountry e of
        None \<Rightarrow> False
      | Some c \<Rightarrow> c \<in> set (countries t))"

definition spec_datePredicate :: "zone \<Rightarrow> instant \<Rightarrow> dateFilter \<Rightarrow> expense \<Rightarrow> bool" where
  \<comment> \<open>the date predicate of each date filter, evaluated against \<open>now\<close>\<close>
  "spec_datePredicate z now f e =
     (case f of
        All \<Rightarrow> True
      | Today \<Rightarrow> isoDate (date e) = isoDate now
      | Week \<Rightarrow> firstDayOfWeek z now \<le> date e
      | Month \<Rightarrow> getMonth z (date e) = getMonth z now \<and>
                 getFullYear z (date e) = getFullYear z now)"

definition spec_categoryPredicate :: "string list \<Rightarrow> expense \<Rightarrow> bool" where
  \<comment> \<open>included iff no category is selected or the expense's category is\<close>
  "spec_categoryPredicate selectedCategories e =
     (selectedCategories = [] \<or> category e \<in> set selectedCategories)"

section \<open>Concrete inputs\<close>

text \<open>
  A trip from 2024-01-01 to 2024-01-10 (UTC midnights, as a date-only string parses) with
  a budget of 1000 EUR, three expenses sorted by descending date, and a converter with
  one rate for every foreign currency.
\<close>

definition convert_example :: converter where
  "convert_example a from to = (if from = to then a else a * 92 / 100)"

definition trip_example :: trip where
  "trip_example =
     \<lparr>startDate = 1704067200000, endDate = 1704844800000, mainCurrency = ''EUR'',
      totalBudget = 1000, countries = [''Italia'', ''USA'', ''Francia'']\<rparr>"

definition expenses_example :: "expense list" where
  "expenses_example =
     [\<lparr>amount = 200, currency = ''EUR'', category = ''Cibo'', description = ''cena'',
       date = 1704416400000, country = None\<rparr>,
      \<lparr>amount = 50, currency = ''USD'', category = ''Taxi'', description = ''taxi'',
       date = 1704074400000, country = None\<rparr>,
      \<lparr>amount = 100, currency = ''EUR'', category = ''Cibo'', description = ''pranzo'',
       date = 1704070800000, country = Some ''Italia''\<rparr>]"

definition currencyToCountry_example :: "string \<rightharpoonup> string" where
  "currencyToCountry_example = [''USD'' \<mapsto> ''USA'']"

text \<open>
  Europe/Rome between the changes of 31 March 2024 and 30 March 2025: two hours ahead of
  UTC until 2024-10-27T01:00Z, one hour after; a local time before 03:00 of that day
  is read with the summer offset. And a trip of three days across that change.
\<close>

lift_definition rome_autumn_2024 :: zone is
  "(\<lambda>t. if t < 1729990800000 then 7200000 else 3600000,
    \<lambda>lt. if lt < 1729998000000 then 7200000 else 3600000)"
  by (auto simp: DAY_def)

definition trip_october :: trip where
  "trip_october =
     \<lparr>startDate = 1729900800000, endDate = 1730073600000, mainCurrency = ''EUR'',
      totalBudget = 300, countries = [''Italia'']\<rparr>"

section \<open>Properties of the zones\<close>

lemma DAY_pos: "0 < DAY"
  by (simp add: DAY_def)

lemma zone_forward: "t < utcOf z (localTime z t + DAY)"
proof -
  have "snd (Rep_zone z) (t + fst (Rep_zone z) t + DAY) - fst (Rep_zone z) t < DAY"
    using Rep_zone[of z] by simp
  then show ?thesis
    by (simp add: utcOf_def localTime_def offsetAt.rep_eq offsetOf.rep_eq)
qed

lemma offsetAt_fixedZone: "offsetAt (fixedZone c) t = c"
  by transfer simp

lemma offsetOf_fixedZone: "offsetOf (fixedZone c) lt = c"
  by transfer simp

lemma localTime_fixed: "localTime (fixedZone c) t = t + c"
  by (simp add: localTime_def offsetAt_fixedZone)

lemma utcOf_fixed: "utcOf (fixedZone c) lt = lt - c"
  by (simp add: utcOf_def offsetOf_fixedZone)

lemma localDay_fixed: "localDay (fixedZone c) t = (t + c) div DAY"
  by (simp add: localDay_def localTime_fixed)

lemma setHoursEnd_fixed: "setHoursEnd (fixedZone c) t = ((t + c) div DAY + 1) * DAY - 1 - c"
  by (simp add: setHoursEnd_def utcOf_fixed localDay_fixed algebra_simps)


lemma setDate_next: "setDate z t (getDate z t + n) = utcOf z (localTime z t + n * DAY)"
proof -
  have "localTime z t div DAY * DAY + localTime z t mod DAY = localTime z t"
    by (rule div_mult_mod_eq)
  then have "(localTime z t div DAY + n) * DAY + localTime z t mod DAY = localTime z t + n * DAY"
    by (simp add: algebra_simps)
  then show ?thesis
    by (simp add: setDate_def localDay_def timeWithinDay_def)
qed

lemma setDate_tomorrow: "setDate z t (getDate z t + 1) = utcOf z (localTime z t + DAY)"
  using setDate_next[of z t 1] by simp


section \<open>Properties of the day buckets\<close>

lemma budgetLoop_step:
  assumes "cur \<le> lastDate"
  shows "budgetLoop z sp burn lastDate cur n c =
           \<lparr>fullDate = cur,
            spesaGiornaliera =
              (if getOr0 sp (isoDate cur) > 0 then Some (getOr0 sp (isoDate cur)) else None),
            spesaCumulativa = c + getOr0 sp (isoDate cur),
            budgetCumulativoIdeale = burn * real (n + 1)\<rparr>
           # budgetLoop z sp burn lastDate (utcOf z (localTime z cur + DAY)) (n + 1)
               (c + getOr0 sp (isoDate cur))"
  using assms
  by (subst budgetLoop.simps) (simp add: Let_def setDate_tomorrow)

lemma budgetLoop_stop: "\<not> cur \<le> lastDate \<Longrightarrow> budgetLoop z sp burn lastDate cur n c = []"
  by (subst budgetLoop.simps) simp

text \<open>Under a fixed offset the cursor moves by 24 hours, and the buckets can be counted.\<close>

lemma length_budgetLoop_fixed:
  "z = fixedZone off \<Longrightarrow>
   int (length (budgetLoop z sp burn lastDate cur n c)) =
     (if cur \<le> lastDate then (lastDate - cur) div DAY + 1 else 0)"
proof (induction z sp burn lastDate cur n c rule: budgetLoop.induct)
  case (1 z sp burn lastDate cur n c)
  note z = \<open>z = fixedZone off\<close>
  have next_cur: "utcOf z (localTime z cur + DAY) = cur + DAY"
    by (simp add: z utcOf_fixed localTime_fixed)
  show ?case
  proof (cases "cur \<le> lastDate")
    case False
    then show ?thesis by (simp add: budgetLoop_stop)
  next
    case True
    note IH = "1.IH"[OF True refl refl refl z, unfolded setDate_tomorrow next_cur]
    show ?thesis
    proof (cases "cur + DAY \<le> lastDate")
      case more: True
      have "(lastDate - cur) div DAY = (lastDate - (cur + DAY)) div DAY + 1"
        using DAY_pos div_add_self2[of DAY "lastDate - (cur + DAY)"] by (simp add: algebra_simps)
      then show ?thesis using more True IH by (simp add: budgetLoop_step next_cur)
    next
      case last: False
      then have "(lastDate - cur) div DAY = 0"
        using True by (simp add: div_pos_pos_trivial)
      then show ?thesis using last True IH by (simp add: budgetLoop_step next_cur)
    qed
  qed
qed

lemma ideal_budgetLoop:
  "k < length (budgetLoop z sp burn lastDate cur n c) \<Longrightarrow>
   budgetCumulativoIdeale (budgetLoop z sp burn lastDate cur n c ! k) = burn * real (n + k + 1)"
proof (induction z sp burn lastDate cur n c arbitrary: k rule: budgetLoop.induct)
  case (1 z sp burn lastDate cur n c)
  show ?case
  proof (cases "cur \<le> lastDate")
    case False
    with 1(2) show ?thesis by (simp add: budgetLoop_stop)
  next
    case True
    note IH = 1(1)[OF True refl refl refl, unfolded setDate_tomorrow]
    show ?thesis
    proof (cases k)
      case 0
      then show ?thesis by (simp add: budgetLoop_step[OF True])
    next
      case (Suc j)
      with 1(2) have "j < length (budgetLoop z sp burn lastDate (utcOf z (localTime z cur + DAY))
                                   (n + 1) (c + getOr0 sp (isoDate cur)))"
        by (simp add: budgetLoop_step[OF True])
      from IH[OF this] Suc show ?thesis
        by (simp add: budgetLoop_step[OF True])
    qed
  qed
qed

lemma chartData_lastDate:
  "chartData_AdvancedBudget z convert now t expenses =
     (if min (setHoursEnd z now) (endDate t) < startDate t then []
      else budgetLoop z (dailySpending convert (mainCurrency t) expenses) (idealDailyBurn t)
             (min (setHoursEnd z now) (endDate t)) (startDate t) 0 0)"
  by (simp add: chartData_AdvancedBudget_def Let_def min_def)

lemma length_chartData_fixed:
  "int (length (chartData_AdvancedBudget (fixedZone off) convert now t expenses)) =
     (if min (setHoursEnd (fixedZone off) now) (endDate t) < startDate t then 0
      else (min (setHoursEnd (fixedZone off) now) (endDate t) - startDate t) div DAY + 1)"
  by (auto simp: chartData_lastDate length_budgetLoop_fixed)

text \<open>In every zone the chart is empty exactly when the end of today is before the start.\<close>

lemma chartData_empty_iff:
  assumes "startDate t \<le> endDate t"
  shows "chartData_AdvancedBudget z convert now t expenses = [] \<longleftrightarrow>
           setHoursEnd z now < startDate t"
proof -
  let ?last = "min (setHoursEnd z now) (endDate t)"
  have lt: "?last < startDate t \<longleftrightarrow> setHoursEnd z now < startDate t"
    using assms by auto
  have "chartData_AdvancedBudget z convert now t expenses \<noteq> []" if "\<not> ?last < startDate t"
  proof -
    from that have "startDate t \<le> ?last" by linarith
    from budgetLoop_step[OF this] that show ?thesis
      by (simp only: chartData_lastDate if_False) simp
  qed
  moreover have "?last < startDate t \<Longrightarrow> chartData_AdvancedBudget z convert now t expenses = []"
    by (simp only: chartData_lastDate if_True)
  ultimately have "chartData_AdvancedBudget z convert now t expenses = [] \<longleftrightarrow> ?last < startDate t"
    by auto
  with lt show ?thesis by simp
qed

lemma chartData_length_fixed:
  assumes "startDate t \<le> endDate t" and "\<not> setHoursEnd (fixedZone off) now < startDate t"
  shows "int (length (chartData_AdvancedBudget (fixedZone off) convert now t expenses)) =
           (min (setHoursEnd (fixedZone off) now) (endDate t) - startDate t) div DAY + 1"
proof -
  have "\<not> min (setHoursEnd (fixedZone off) now) (endDate t) < startDate t"
    using assms by auto
  then show ?thesis
    by (simp only: length_chartData_fixed if_False)
qed

text \<open>
  Where the runtime's zone is UTC and the trip's dates are UTC midnights (what a date-only
  string parses to), the end of today is before a date exactly when \<open>now\<close> is, and the
  chart is what C1 says: empty if and only if \<open>now\<close> is before the start, and otherwise
  one bucket for every whole day between the start and the earlier of \<open>now\<close> and the
  end, plus one.
\<close>

lemma utc_midnight_start:
  assumes "DAY dvd s"
  shows "setHoursEnd (fixedZone 0) now < s \<longleftrightarrow> now < s"
proof -
  from assms obtain k where s: "s = DAY * k" by (auto simp: dvd_def)
  have "(now div DAY + 1) * DAY - 1 < DAY * k \<longleftrightarrow> (now div DAY + 1) * DAY \<le> k * DAY"
    by (simp only: mult.commute[of DAY k]) linarith
  also have "\<dots> \<longleftrightarrow> now div DAY + 1 \<le> k"
    using DAY_pos by simp
  also have "\<dots> \<longleftrightarrow> now div DAY < k"
    by auto
  also have "\<dots> \<longleftrightarrow> now < k * DAY"
  proof -
    have "DAY \<noteq> 0"
      using DAY_pos by simp
    from div_mult_self1[OF this, of now "- k"]
    have "(now + (- k) * DAY) div DAY = - k + now div DAY" .
    then show ?thesis
      using pos_imp_zdiv_neg_iff[OF DAY_pos, of "now + (- k) * DAY"] by simp
  qed
  also have "\<dots> \<longleftrightarrow> now < DAY * k"
    by (simp add: mult.commute)
  finally show ?thesis by (simp add: setHoursEnd_fixed s)
qed

lemma utc_end_of_day_div:
  assumes "DAY dvd s"
  shows "(setHoursEnd (fixedZone 0) now - s) div DAY = (now - s) div DAY"
proof -
  from assms obtain k where s: "s = DAY * k" by (auto simp: dvd_def)
  have nz: "DAY \<noteq> 0" using DAY_pos by simp
  have "(now div DAY + 1) * DAY - 1 - DAY * k = (DAY - 1) + (now div DAY - k) * DAY"
    by (simp add: algebra_simps)
  then have "((now div DAY + 1) * DAY - 1 - DAY * k) div DAY =
      (DAY - 1 + (now div DAY - k) * DAY) div DAY"
    by (rule arg_cong)
  also have "\<dots> = (now div DAY - k) + (DAY - 1) div DAY"
    by (rule div_mult_self1[OF nz])
  also have "(DAY - 1) div DAY = 0"
    by (simp add: DAY_def)
  finally have l: "((now div DAY + 1) * DAY - 1 - DAY * k) div DAY = now div DAY - k"
    by simp
  have "(now + (- k) * DAY) div DAY = - k + now div DAY"
    by (rule div_mult_self1[OF nz])
  then have r: "(now - DAY * k) div DAY = now div DAY - k"
    by (simp add: algebra_simps)
  show ?thesis
    by (simp add: setHoursEnd_fixed s l r)
qed

lemma buckets_utc_calendar_dates:
  assumes "DAY dvd startDate t" and "DAY dvd endDate t" and "startDate t \<le> endDate t"
  shows "(chartData_AdvancedBudget (fixedZone 0) convert now t expenses = [] \<longleftrightarrow>
            now < startDate t) \<and>
         (\<not> now < startDate t \<longrightarrow>
            int (length (chartData_AdvancedBudget (fixedZone 0) convert now t expenses)) =
              spec_wholeDaysBetween (startDate t) (min now (endDate t)) + 1)"
proof -
  have start: "setHoursEnd (fixedZone 0) now < startDate t \<longleftrightarrow> now < startDate t"
    by (rule utc_midnight_start[OF assms(1)])
  have "end": "setHoursEnd (fixedZone 0) now < endDate t \<longleftrightarrow> now < endDate t"
    by (rule utc_midnight_start[OF assms(2)])
  have days: "(min (setHoursEnd (fixedZone 0) now) (endDate t) - startDate t) div DAY =
        (min now (endDate t) - startDate t) div DAY"
  proof (cases "now < endDate t")
    case True
    then show ?thesis
      using "end" utc_end_of_day_div[OF assms(1), of now] by (simp add: min_def)
  next
    case False
    then show ?thesis
      using "end" by (simp add: min_def)
  qed
  have "chartData_AdvancedBudget (fixedZone 0) convert now t expenses = [] \<longleftrightarrow> now < startDate t"
    using chartData_empty_iff[OF assms(3), of "fixedZone 0" convert now expenses] start by simp
  moreover have "int (length (chartData_AdvancedBudget (fixedZone 0) convert now t expenses)) =
      (min now (endDate t) - startDate t) div DAY + 1" if "\<not> now < startDate t"
    using chartData_length_fixed[OF assms(3), of 0 now convert expenses] that start days
    by simp
  ultimately show ?thesis by (simp add: spec_wholeDaysBetween_def)
qed

lemma offsetAt_rome:
  "offsetAt rome_autumn_2024 t = (if t < 1729990800000 then 7200000 else 3600000)"
  by transfer simp

lemma offsetOf_rome:
  "offsetOf rome_autumn_2024 lt = (if lt < 1729998000000 then 7200000 else 3600000)"
  by transfer simp

text \<open>
  C1 asks for no bucket while \<open>now\<close> is before the trip's start, and otherwise for one
  bucket per calendar day: the whole days between the start and the earlier of \<open>now\<close>
  and the end, plus one. The code misses this outside UTC, because the trip's dates are
  parsed as UTC midnights while the cursor and the end of today move on the local clock.
  \<^item> Europe/Rome, trip from 2024-10-26 to 2024-10-28, seen on 2024-11-05 when it is over:
    summer time ends on 27 October, the cursor goes from 2024-10-27T00:00Z to
    2024-10-28T01:00Z, which is after the end date, and the chart has the two buckets of
    26 and 27 October where the three calendar days of the trip ask for three.
  \<^item> A zone five hours behind UTC, trip from 2024-01-01, seen at 2023-12-31T15:00Z
    (10:00 on 31 December, local time): \<open>now\<close> is before the start, on the calendar
    day before it, and the chart already has the bucket of the first day.
\<close>

theorem buckets_missing_and_early:
  "startDate trip_october \<le> endDate trip_october \<and>
   \<not> (1730800000000 :: int) < startDate trip_october \<and>
   spec_wholeDaysBetween (startDate trip_october) (min 1730800000000 (endDate trip_october)) + 1
     = 3 \<and>
   map fullDate (chartData_AdvancedBudget rome_autumn_2024 convert_example 1730800000000
                   trip_october []) = [1729900800000, 1729987200000] \<and>
   (1704034800000 :: int) < startDate trip_example \<and>
   localDay (fixedZone (- 18000000)) 1704034800000 < isoDate (startDate trip_example) \<and>
   length (chartData_AdvancedBudget (fixedZone (- 18000000)) convert_example 1704034800000
             trip_example expenses_example) = 1"
proof -
  have today: "setHoursEnd rome_autumn_2024 1730800000000 = 1730847599999"
    by (simp add: setHoursEnd_def utcOf_def localDay_def localTime_def offsetAt_rome
          offsetOf_rome DAY_def)
  have loop: "map fullDate (budgetLoop rome_autumn_2024 sp burn 1730073600000 1729900800000 0 0) =
      [1729900800000, 1729987200000]" for sp burn
    by (simp add: budgetLoop_step budgetLoop_stop utcOf_def localTime_def offsetAt_rome
          offsetOf_rome DAY_def)
  have rome: "map fullDate (chartData_AdvancedBudget rome_autumn_2024 convert_example
      1730800000000 trip_october []) = [1729900800000, 1729987200000]"
    by (simp add: chartData_lastDate today trip_october_def loop)
  have w: "setHoursEnd (fixedZone (- 18000000)) 1704034800000 = 1704085199999"
    by (simp add: setHoursEnd_fixed DAY_def)
  have "int (length (chartData_AdvancedBudget (fixedZone (- 18000000)) convert_example
      1704034800000 trip_example expenses_example)) = 1"
    by (simp add: length_chartData_fixed w trip_example_def DAY_def)
  then have west: "length (chartData_AdvancedBudget (fixedZone (- 18000000)) convert_example
      1704034800000 trip_example expenses_example) = 1"
    by simp
  have days: "spec_wholeDaysBetween (startDate trip_october)
      (min 1730800000000 (endDate trip_october)) + 1 = 3"
    by (simp add: spec_wholeDaysBetween_def trip_october_def DAY_def)
  from rome west days show ?thesis
    by (simp add: trip_october_def trip_example_def localDay_fixed isoDate_def DAY_def)
qed

section \<open>The ideal cumulative budget\<close>

lemma ideal_chartData:
  "i < length (chartData_AdvancedBudget z convert now t expenses) \<Longrightarrow>
   budgetCumulativoIdeale (chartData_AdvancedBudget z convert now t expenses ! i) =
     idealDailyBurn t * real (i + 1)"
  by (simp add: chartData_lastDate ideal_budgetLoop split: if_splits)

lemma totalTripDuration_whole:
  assumes "DAY dvd (endDate t - startDate t)"
  shows "totalTripDuration t =
           max 1 (real_of_int (spec_wholeDaysBetween (startDate t) (endDate t) + 1))"
proof -
  from assms obtain k where k: "endDate t - startDate t = DAY * k" by (auto simp: dvd_def)
  have "real_of_int (DAY * k) / real_of_int DAY = real_of_int k"
    using DAY_pos by simp
  moreover have "(DAY * k) div DAY = k"
    using DAY_pos by simp
  ultimately show ?thesis
    by (simp add: totalTripDuration_def spec_wholeDaysBetween_def k)
qed

text \<open>
  C2. For a trip of the data model (a budget that is not negative, start and end calendar
  dates, so a whole number of days apart) the bucket at the 1-based position \<open>i + 1\<close>
  has the ideal cumulative budget
  \<open>totalBudget / max 1 (wholeDaysBetween start end + 1) * (i + 1)\<close>, which is 0 when the
  budget is 0: the ordinal starts at 1 and grows by one per bucket.
\<close>

theorem ideal_cumulative_budget:
  assumes "0 \<le> totalBudget t"
    and "DAY dvd (endDate t - startDate t)"
    and "i < length (chartData_AdvancedBudget z convert now t expenses)"
  shows "budgetCumulativoIdeale (chartData_AdvancedBudget z convert now t expenses ! i) =
           spec_idealCumulativeBudget t (i + 1) \<and>
         (totalBudget t = 0 \<longrightarrow>
            budgetCumulativoIdeale (chartData_AdvancedBudget z convert now t expenses ! i) = 0)"
proof -
  have "idealDailyBurn t =
          totalBudget t / max 1 (real_of_int (spec_wholeDaysBetween (startDate t) (endDate t) + 1))"
    using assms(1) by (auto simp: idealDailyBurn_def totalTripDuration_whole[OF assms(2)])
  then show ?thesis
    using ideal_chartData[OF assms(3)] by (simp add: spec_idealCumulativeBudget_def)
qed

theorem ideal_cumulative_budget_witness:
  "0 \<le> totalBudget trip_example \<and>
   DAY dvd (endDate trip_example - startDate trip_example) \<and>
   4 < length (chartData_AdvancedBudget (fixedZone 0) convert_example 1704462800000 trip_example
                 expenses_example) \<and>
   budgetCumulativoIdeale
     (chartData_AdvancedBudget (fixedZone 0) convert_example 1704462800000 trip_example expenses_example ! 4)
     = 500 \<and>
   totalBudget (trip_example\<lparr>totalBudget := 0\<rparr>) = 0 \<and>
   budgetCumulativoIdeale
     (chartData_AdvancedBudget (fixedZone 0) convert_example 1704462800000
        (trip_example\<lparr>totalBudget := 0\<rparr>) expenses_example ! 4)
     = 0"
proof -
  let ?free = "trip_example\<lparr>totalBudget := 0\<rparr>"
  have b: "0 \<le> totalBudget trip_example" and b0: "0 \<le> totalBudget ?free"
    by (simp_all add: trip_example_def)
  have d: "DAY dvd (endDate trip_example - startDate trip_example)"
    and d0: "DAY dvd (endDate ?free - startDate ?free)"
    by (simp_all add: trip_example_def DAY_def)
  have e: "setHoursEnd (fixedZone 0) 1704462800000 = 1704499199999"
    by (simp add: setHoursEnd_fixed DAY_def)
  have "int (length (chartData_AdvancedBudget (fixedZone 0) convert_example 1704462800000 trip_example
                 expenses_example)) = 5"
    by (simp add: length_chartData_fixed e trip_example_def DAY_def)
  then have l: "4 < length (chartData_AdvancedBudget (fixedZone 0) convert_example 1704462800000 trip_example
                 expenses_example)"
    by simp
  have "int (length (chartData_AdvancedBudget (fixedZone 0) convert_example 1704462800000 ?free
                 expenses_example)) = 5"
    by (simp add: length_chartData_fixed e trip_example_def DAY_def)
  then have l0: "4 < length (chartData_AdvancedBudget (fixedZone 0) convert_example 1704462800000 ?free
                 expenses_example)"
    by simp
  have w: "spec_wholeDaysBetween (startDate trip_example) (endDate trip_example) = 9"
    by (simp add: spec_wholeDaysBetween_def trip_example_def DAY_def)
  have paid: "budgetCumulativoIdeale
     (chartData_AdvancedBudget (fixedZone 0) convert_example 1704462800000 trip_example expenses_example ! 4)
     = 500"
    using ideal_cumulative_budget[OF b d l]
    by (simp add: spec_idealCumulativeBudget_def w) (simp add: trip_example_def)
  have free: "budgetCumulativoIdeale
     (chartData_AdvancedBudget (fixedZone 0) convert_example 1704462800000 ?free expenses_example ! 4) = 0"
    using ideal_cumulative_budget[OF b0 d0 l0] by simp
  from b d l paid free show ?thesis by simp
qed

section \<open>Properties of the object folds\<close>

lemma sum_snd_update:
  "sum_list (map snd (AList.update k ((case map_of al k of None \<Rightarrow> 0 | Some v \<Rightarrow> v) + a) al)) =
     sum_list (map snd al) + (a :: real)"
  by (induction al) auto

lemma sum_snd_addTo: "sum_list (map snd (addTo obj k a)) = sum_list (map snd obj) + a"
  by (simp add: addTo_def sum_snd_update)

lemma map_of_addTo:
  "map_of (addTo obj k a) k' =
     (if k' = k then Some ((case map_of obj k of None \<Rightarrow> 0 | Some v \<Rightarrow> v) + a) else map_of obj k')"
  by (simp add: addTo_def update_conv)

lemma distinct_addTo: "distinct (map fst obj) \<Longrightarrow> distinct (map fst (addTo obj k a))"
  by (simp add: addTo_def distinct_update)

lemma sum_snd_fold_addTo:
  "sum_list (map snd (fold (\<lambda>e obj. addTo obj (key e) (val e)) es obj)) =
     sum_list (map snd obj) + sum_list (map val es)"
  by (induction es arbitrary: obj) (simp_all add: sum_snd_addTo)

lemma distinct_fold_addTo:
  "distinct (map fst obj) \<Longrightarrow>
   distinct (map fst (fold (\<lambda>e obj. addTo obj (key e) (val e)) es obj))"
  by (induction es arbitrary: obj) (simp_all add: distinct_addTo)

lemma map_of_fold_addTo:
  "map_of (fold (\<lambda>e obj. addTo obj (key e) (val e)) es obj) k =
     (if k \<in> key ` set es \<or> k \<in> dom (map_of obj)
      then Some ((case map_of obj k of None \<Rightarrow> 0 | Some v \<Rightarrow> v)
                 + sum_list (map val (filter (\<lambda>e. key e = k) es)))
      else None)"
proof (induction es arbitrary: obj)
  case Nil
  then show ?case by (auto split: option.splits)
next
  case (Cons e es)
  show ?case
    by (simp add: Cons.IH map_of_addTo) (auto split: option.splits)
qed

section \<open>Properties of the category slices\<close>

lemma set_sortDesc: "set (sortDesc v xs) = set xs"
  by (simp add: sortDesc_def)

lemma sum_list_all_zero: "\<forall>x\<in>set xs. f x = (0 :: real) \<Longrightarrow> sum_list (map f xs) = 0"
  by (induction xs) auto

lemma length_sortDesc: "length (sortDesc v xs) = length xs"
  by (simp add: sortDesc_def)

lemma sum_list_sortDesc: "sum_list (map g (sortDesc v xs)) = (sum_list (map g xs) :: real)"
proof -
  have "mset (map g (sortDesc v xs)) = mset (map g xs)"
    by (simp add: sortDesc_def)
  then show ?thesis
    by (metis sum_mset_sum_list)
qed

lemma total_spendingByCategory:
  "sum_list (map snd (spendingByCategory convert main expenses)) =
     sum_list (map (inMain convert main) expenses)"
  by (simp add: spendingByCategory_def sum_snd_fold_addTo)

lemma amount_spendingByCategory:
  assumes "(c, a) \<in> set (spendingByCategory convert main expenses)"
  shows "a = sum_list (map (inMain convert main) (filter (\<lambda>e. category e = c) expenses))"
proof -
  have "distinct (map fst (spendingByCategory convert main expenses))"
    by (simp add: spendingByCategory_def distinct_fold_addTo)
  with assms have "map_of (spendingByCategory convert main expenses) c = Some a"
    by simp
  then show ?thesis
    by (simp add: spendingByCategory_def map_of_fold_addTo split: if_splits)
qed

lemma spendingByCategory_nonempty:
  "expenses \<noteq> [] \<Longrightarrow> spendingByCategory convert main expenses \<noteq> []"
proof -
  assume "expenses \<noteq> []"
  then obtain e where "e \<in> set expenses" by (cases expenses) auto
  then have "map_of (spendingByCategory convert main expenses) (category e) \<noteq> None"
    by (auto simp: spendingByCategory_def map_of_fold_addTo)
  then show ?thesis by auto
qed

lemma dataByCategory_slice:
  assumes "s \<in> set (dataByCategory convert categories main expenses)"
  shows "(name_slice s, amount_slice s) \<in> set (spendingByCategory convert main expenses) \<and>
         percentage s =
           (if sum_list (map (inMain convert main) expenses) > 0
            then amount_slice s / sum_list (map (inMain convert main) expenses) * 100 else 0)"
  using assms
  by (auto simp: dataByCategory_def Let_def set_sortDesc total_spendingByCategory)

lemma sum_percentage:
  "sum_list (map percentage (dataByCategory convert categories main expenses)) =
     (if sum_list (map (inMain convert main) expenses) > 0 then 100 else 0)"
proof -
  let ?sp = "spendingByCategory convert main expenses"
  let ?T = "sum_list (map (inMain convert main) expenses)"
  have "sum_list (map percentage (dataByCategory convert categories main expenses)) =
          sum_list (map (\<lambda>(c, a). if ?T > 0 then a / ?T * 100 else 0) ?sp)"
    by (simp add: dataByCategory_def Let_def sum_list_sortDesc total_spendingByCategory
          comp_def case_prod_unfold cong: if_cong)
  also have "\<dots> = (if ?T > 0 then 100 else 0)"
  proof (cases "?T > 0")
    case True
    have "sum_list (map (\<lambda>(c, a). a / ?T * 100) ?sp) = sum_list (map (\<lambda>p. snd p * (100 / ?T)) ?sp)"
      by (simp add: case_prod_unfold)
    also have "\<dots> = sum_list (map snd ?sp) * (100 / ?T)"
      by (rule sum_list_mult_const)
    also have "\<dots> = 100"
      using True by (simp add: total_spendingByCategory)
    finally show ?thesis using True by simp
  next
    case False
    then show ?thesis by (simp add: case_prod_unfold)
  qed
  finally show ?thesis .
qed

text \<open>
  C3. For a non-empty expense list whose converted amounts are not negative (the data
  model has \<open>amount > 0\<close>), every slice carries the converted amount of its category
  and the percentage \<open>amount / total * 100\<close> (0 when the total is 0); the percentages of
  all slices add up to 100, unless the total is 0, where they add up to 0; and all
  percentages are 0 exactly when the total is 0.
\<close>

theorem category_percentages:
  assumes "expenses \<noteq> []"
    and "\<forall>e\<in>set expenses. 0 \<le> inMain convert main e"
  shows "dataByCategory convert categories main expenses \<noteq> [] \<and>
         (\<forall>s\<in>set (dataByCategory convert categories main expenses).
            amount_slice s = spec_categoryAmount convert main expenses (name_slice s) \<and>
            percentage s =
              spec_percentageOfTotal (amount_slice s) (spec_totalAmount convert main expenses)) \<and>
         sum_list (map percentage (dataByCategory convert categories main expenses)) =
           (if spec_totalAmount convert main expenses = 0 then 0 else 100) \<and>
         (spec_totalAmount convert main expenses = 0 \<longleftrightarrow>
            (\<forall>s\<in>set (dataByCategory convert categories main expenses). percentage s = 0))"
proof -
  let ?D = "dataByCategory convert categories main expenses"
  let ?T = "sum_list (map (inMain convert main) expenses)"
  have T0: "0 \<le> ?T"
    using assms(2) by (intro sum_list_nonneg) auto
  then have pos: "?T > 0 \<longleftrightarrow> ?T \<noteq> 0"
    by auto
  have "length ?D = length (spendingByCategory convert main expenses)"
    by (simp add: dataByCategory_def Let_def length_sortDesc)
  then have ne: "?D \<noteq> []"
    using spendingByCategory_nonempty[OF assms(1), of convert main] by auto
  have slices: "amount_slice s = spec_categoryAmount convert main expenses (name_slice s) \<and>
      percentage s = spec_percentageOfTotal (amount_slice s) (spec_totalAmount convert main expenses)"
    if "s \<in> set ?D" for s
    using dataByCategory_slice[OF that] amount_spendingByCategory[of "name_slice s" "amount_slice s"] pos
    by (simp add: spec_categoryAmount_def spec_percentageOfTotal_def spec_totalAmount_def)
  have sum: "sum_list (map percentage ?D) = (if ?T = 0 then 0 else 100)"
    using pos by (simp add: sum_percentage)
  have all0: "?T = 0 \<longleftrightarrow> (\<forall>s\<in>set ?D. percentage s = 0)"
  proof
    assume "?T = 0"
    then show "\<forall>s\<in>set ?D. percentage s = 0"
      using slices by (simp add: spec_percentageOfTotal_def spec_totalAmount_def)
  next
    assume "\<forall>s\<in>set ?D. percentage s = 0"
    then have "sum_list (map percentage ?D) = 0"
      by (rule sum_list_all_zero)
    with sum show "?T = 0"
      by (simp split: if_splits)
  qed
  show ?thesis
    using ne slices sum all0 by (simp add: spec_totalAmount_def)
qed

theorem category_percentages_witness:
  "expenses_example \<noteq> [] \<and>
   list_all (\<lambda>e. 0 \<le> inMain convert_example ''EUR'' e) expenses_example \<and>
   spec_totalAmount convert_example ''EUR'' expenses_example = 346 \<and>
   sum_list (map percentage (dataByCategory convert_example [] ''EUR'' expenses_example)) = 100"
proof -
  have ne: "expenses_example \<noteq> []"
    by (simp add: expenses_example_def)
  have nn: "\<forall>e\<in>set expenses_example. 0 \<le> inMain convert_example ''EUR'' e"
    by (simp add: expenses_example_def inMain_def convert_example_def)
  have t: "spec_totalAmount convert_example ''EUR'' expenses_example = 346"
    by (simp add: spec_totalAmount_def expenses_example_def inMain_def convert_example_def)
  show ?thesis
    using category_percentages[OF ne nn, of "[]"] ne nn t
    by (simp add: list_all_iff)
qed

section \<open>Properties of the statistical highlights\<close>

text \<open>
  C4, as amended. On the empty expense list the three highlights
  \<^verbatim>\<open>largestExpense\<close>, \<^verbatim>\<open>highestSpendingDay\<close> and
  \<^verbatim>\<open>mostFrequentCategory\<close> are null, and \<^verbatim>\<open>avgTransaction\<close> is the
  number 0, which the source writes in the guard's branch; no quotient is computed there.
\<close>

theorem highlights_of_empty_list:
  assumes "expenses = []"
  shows "largestExpense (summary convert categories main expenses) = None \<and>
         highestSpendingDay (summary convert categories main expenses) = None \<and>
         mostFrequentCategory (summary convert categories main expenses) = None \<and>
         avgTransaction (summary convert categories main expenses) = Some 0"
  using assms by (simp add: summary_def)

theorem highlights_of_empty_list_witness:
  "largestExpense (summary convert_example [] ''EUR'' []) = None \<and>
   highestSpendingDay (summary convert_example [] ''EUR'' []) = None \<and>
   mostFrequentCategory (summary convert_example [] ''EUR'' []) = None \<and>
   avgTransaction (summary convert_example [] ''EUR'' []) = Some 0"
  using highlights_of_empty_list[of "[]" convert_example "[]" "''EUR''"] by simp

text \<open>
  C4 as stated fails for the fourth highlight: on the empty list
  \<^verbatim>\<open>avgTransaction\<close> is not null.
\<close>

theorem highlights_all_null_counterexample:
  "\<not> (largestExpense (summary convert_example [] ''EUR'' []) = None \<and>
      highestSpendingDay (summary convert_example [] ''EUR'' []) = None \<and>
      mostFrequentCategory (summary convert_example [] ''EUR'' []) = None \<and>
      avgTransaction (summary convert_example [] ''EUR'' []) = None)"
  by (simp add: summary_def)

text \<open>On a non-empty list all four highlights are present, the mean being the total
  converted amount over the number of expenses.\<close>

lemma fold_addTo_nonempty:
  "es \<noteq> [] \<Longrightarrow> fold (\<lambda>e obj. addTo obj (key e) (val e)) es obj \<noteq> []"
proof -
  assume "es \<noteq> []"
  then obtain e where "e \<in> set es" by (cases es) auto
  then have "map_of (fold (\<lambda>e obj. addTo obj (key e) (val e)) es obj) (key e) \<noteq> None"
    by (auto simp: map_of_fold_addTo)
  then show ?thesis by auto
qed

lemma addCount_nonempty: "addCount obj k \<noteq> []"
  by (cases obj) (auto simp: addCount_def)

lemma fold_addCount_nonempty:
  "obj \<noteq> [] \<or> es \<noteq> [] \<Longrightarrow> fold (\<lambda>e obj. addCount obj (key e)) es obj \<noteq> []"
  by (induction es arbitrary: obj) (auto simp: addCount_nonempty)

lemma firstOf_sortDesc: "xs \<noteq> [] \<Longrightarrow> firstOf (sortDesc v xs) \<noteq> None"
  using length_sortDesc[of v xs] by (cases "sortDesc v xs") (auto simp: firstOf_def)

lemma highlights_of_nonempty_list:
  assumes "expenses \<noteq> []"
  shows "largestExpense (summary convert categories main expenses) \<noteq> None \<and>
         highestSpendingDay (summary convert categories main expenses) \<noteq> None \<and>
         mostFrequentCategory (summary convert categories main expenses) \<noteq> None \<and>
         avgTransaction (summary convert categories main expenses) =
           Some (sum_list (map (inMain convert main) expenses) / real (length expenses))"
proof -
  have 1: "firstOf (sortDesc snd (map (\<lambda>e. (e, inMain convert main e)) expenses)) \<noteq> None"
    using assms by (intro firstOf_sortDesc) simp
  have "fold (\<lambda>p obj. addTo obj (isoDate (date (fst p))) (snd p))
          (map (\<lambda>e. (e, inMain convert main e)) expenses) [] \<noteq> []"
    using assms by (intro fold_addTo_nonempty) simp
  then have 2: "firstOf (sortDesc snd
          (fold (\<lambda>(e, mainAmount) obj. addTo obj (isoDate (date e)) mainAmount)
             (map (\<lambda>e. (e, inMain convert main e)) expenses) [])) \<noteq> None"
    by (intro firstOf_sortDesc) (simp add: case_prod_unfold)
  have "fold (\<lambda>e obj. addCount obj (category e)) expenses [] \<noteq> []"
    using assms by (intro fold_addCount_nonempty) simp
  then have 3: "firstOf (sortDesc (\<lambda>(c, n). real n)
          (fold (\<lambda>e obj. addCount obj (category e)) expenses [])) \<noteq> None"
    by (intro firstOf_sortDesc)
  show ?thesis
    using assms 1 2 3 by (simp add: summary_def Let_def comp_def)
qed

section \<open>Properties of the filter\<close>

lemma filteredExpenses_filter:
  "filteredExpenses z now dateFilter selectedCategories sortedExpenses =
     filter (\<lambda>e. spec_datePredicate z now dateFilter e \<and>
                 spec_categoryPredicate selectedCategories e) sortedExpenses"
proof (cases "selectedCategories = []")
  case True
  then show ?thesis
    by (cases dateFilter)
       (simp_all add: filteredExpenses_def spec_datePredicate_def spec_categoryPredicate_def)
next
  case False
  then show ?thesis
    by (cases dateFilter)
       (simp_all add: filteredExpenses_def spec_datePredicate_def spec_categoryPredicate_def)
qed

text \<open>
  C5. Filtering the result of a filter again, with the same date filter, categories,
  clock and zone, changes nothing; and the filter \<open>All\<close> with no selected category
  returns the list it was given, in its order.
\<close>

theorem filter_idempotent_and_neutral:
  "filteredExpenses z now dateFilter selectedCategories
     (filteredExpenses z now dateFilter selectedCategories sortedExpenses) =
   filteredExpenses z now dateFilter selectedCategories sortedExpenses \<and>
   filteredExpenses z now All [] sortedExpenses = sortedExpenses"
proof
  let ?keep = "\<lambda>e. spec_datePredicate z now dateFilter e \<and>
                    spec_categoryPredicate selectedCategories e"
  have "filter ?keep (filter ?keep sortedExpenses) = filter ?keep sortedExpenses"
    by simp
  then show "filteredExpenses z now dateFilter selectedCategories
       (filteredExpenses z now dateFilter selectedCategories sortedExpenses) =
     filteredExpenses z now dateFilter selectedCategories sortedExpenses"
    by (simp only: filteredExpenses_filter)
next
  show "filteredExpenses z now All [] sortedExpenses = sortedExpenses"
    by (simp add: filteredExpenses_filter spec_datePredicate_def spec_categoryPredicate_def)
qed

theorem filter_idempotent_and_neutral_witness:
  "filteredExpenses (fixedZone 0) 1704462800000 Today [''Cibo'']
     (filteredExpenses (fixedZone 0) 1704462800000 Today [''Cibo''] expenses_example) =
   [expenses_example ! 0] \<and>
   filteredExpenses (fixedZone 0) 1704462800000 Today [''Cibo''] expenses_example = [expenses_example ! 0] \<and>
   filteredExpenses (fixedZone 0) 1704462800000 All [] expenses_example = expenses_example"
proof -
  have "filteredExpenses (fixedZone 0) 1704462800000 Today [''Cibo''] expenses_example = [expenses_example ! 0]"
    by (simp add: filteredExpenses_def expenses_example_def isoDate_def DAY_def)
  then show ?thesis
    using filter_idempotent_and_neutral[of "fixedZone 0" 1704462800000 Today "[''Cibo'']" expenses_example]
    by simp
qed

section \<open>Properties of the week filter\<close>





lemma setDate_monday:
  "setDate z now (getDate z now - getDay z now + (if getDay z now = 0 then - 6 else 1)) =
     utcOf z ((localDay z now - (if getDay z now = 0 then 6 else getDay z now - 1)) * DAY
               + timeWithinDay z now)"
proof -
  have "getDate z now - getDay z now + (if getDay z now = 0 then - 6 else 1) - getDate z now =
          - (if getDay z now = 0 then 6 else getDay z now - 1)"
    by simp
  then show ?thesis
    unfolding setDate_def by (simp only: add_uminus_conv_diff)
qed






text \<open>
  In Rome on Sunday 27 October 2024 at noon, after the end of summer time that morning,
  the week started at midnight of Monday 21 October in summer time, 2024-10-20T22:00Z.
\<close>

lemma firstDayOfWeek_rome:
  "firstDayOfWeek rome_autumn_2024 1730026800000 = 1729461600000"
proof -
  have ld: "localDay rome_autumn_2024 1730026800000 = 20023"
    and twd: "timeWithinDay rome_autumn_2024 1730026800000 = 43200000"
    by (simp_all add: localDay_def timeWithinDay_def localTime_def offsetAt_rome DAY_def)
  have sun: "getDay rome_autumn_2024 1730026800000 = 0"
    by (simp add: getDay_def ld)
  have "setDate rome_autumn_2024 1730026800000
          (getDate rome_autumn_2024 1730026800000 - getDay rome_autumn_2024 1730026800000
            + (if getDay rome_autumn_2024 1730026800000 = 0 then - 6 else 1)) = 1729504800000"
    unfolding setDate_monday by (simp add: sun ld twd utcOf_def offsetOf_rome DAY_def)
  then show ?thesis
    by (simp add: firstDayOfWeek_def Let_def setHoursStart_def localDay_def localTime_def
          utcOf_def offsetAt_rome offsetOf_rome DAY_def)
qed

section \<open>Properties of the payloads\<close>

text \<open>
  C9. With fewer than three expenses neither builder yields a payload, and the forecast
  builder yields none either when \<open>now\<close> is after the trip's end, whatever the number
  of expenses. These are the only cases without a payload.
\<close>

theorem payload_not_applicable:
  "(length expenses < 3 \<longrightarrow>
      dataSummary convert main expenses = None \<and> analysisData convert now t expenses = None) \<and>
   (endDate t < now \<longrightarrow> analysisData convert now t expenses = None) \<and>
   (dataSummary convert main expenses = None \<longleftrightarrow> length expenses < 3) \<and>
   (analysisData convert now t expenses = None \<longleftrightarrow> length expenses < 3 \<or> endDate t < now)"
proof -
  have summary: "dataSummary convert main expenses = None \<longleftrightarrow> length expenses < 3"
    by (simp add: dataSummary_def Let_def)
  have analysis: "analysisData convert now t expenses = None \<longleftrightarrow>
      length expenses < 3 \<or> endDate t < now"
  proof (cases "length expenses < 3")
    case True
    then show ?thesis by (simp add: analysisData_def)
  next
    case enough: False
    show ?thesis
    proof (cases "endDate t < now")
      case True
      then show ?thesis by (simp add: analysisData_def Let_def)
    next
      case False
      with enough show ?thesis by (simp add: analysisData_def Let_def)
    qed
  qed
  from summary analysis show ?thesis by simp
qed

theorem payload_not_applicable_witness:
  "length (take 2 expenses_example) < 3 \<and>
   dataSummary convert_example ''EUR'' (take 2 expenses_example) = None \<and>
   analysisData convert_example 1704462800000 trip_example (take 2 expenses_example) = None \<and>
   endDate trip_example < 1704844800001 \<and>
   analysisData convert_example 1704844800001 trip_example expenses_example = None \<and>
   dataSummary convert_example ''EUR'' expenses_example \<noteq> None \<and>
   analysisData convert_example 1704462800000 trip_example expenses_example \<noteq> None"
proof -
  have l2: "length (take 2 expenses_example) < 3" by simp
  have l3: "\<not> length expenses_example < 3" by (simp add: expenses_example_def)
  have e1: "endDate trip_example < 1704844800001" by (simp add: trip_example_def)
  have e2: "\<not> endDate trip_example < 1704462800000" by (simp add: trip_example_def)
  show ?thesis
    using payload_not_applicable[of "take 2 expenses_example" convert_example "''EUR''"
            1704462800000 trip_example]
          payload_not_applicable[of expenses_example convert_example "''EUR''"
            1704844800001 trip_example]
          payload_not_applicable[of expenses_example convert_example "''EUR''"
            1704462800000 trip_example]
          l2 l3 e1 e2
    by simp
qed

section \<open>Properties of the heatmap\<close>

lemma dailyStep_bound:
  assumes "\<forall>d. getOr0 data d \<le> mx" and "0 \<le> mx"
    and "dailyStep convert main e (data, mx) = (data', mx')"
  shows "(\<forall>d. getOr0 data' d \<le> mx') \<and> 0 \<le> mx'"
proof -
  let ?d = "isoDate (date e)"
  let ?new = "getOr0 data ?d + inMain convert main e"
  have data': "data' = data(?d \<mapsto> ?new)" and mx': "mx' = (if ?new > mx then ?new else mx)"
    using assms(3) by (simp_all add: dailyStep_def Let_def)
  have "getOr0 data' d \<le> mx'" for d
    using assms(1)[rule_format, of d] by (auto simp: data' mx' getOr0_def)
  moreover have "0 \<le> mx'"
    using assms(2) by (simp add: mx')
  ultimately show ?thesis by simp
qed

lemma fold_dailyStep_bound:
  "\<forall>d. getOr0 data d \<le> mx \<Longrightarrow> 0 \<le> mx \<Longrightarrow>
   (\<forall>d. getOr0 (fst (fold (dailyStep convert main) es (data, mx))) d
          \<le> snd (fold (dailyStep convert main) es (data, mx))) \<and>
   0 \<le> snd (fold (dailyStep convert main) es (data, mx))"
proof (induction es arbitrary: data mx)
  case Nil
  then show ?case by simp
next
  case (Cons e es)
  obtain data' mx' where step: "dailyStep convert main e (data, mx) = (data', mx')"
    by (cases "dailyStep convert main e (data, mx)")
  from dailyStep_bound[OF Cons.prems step]
  have "\<forall>d. getOr0 data' d \<le> mx'" and "0 \<le> mx'" by simp_all
  from Cons.IH[OF this] show ?case by (simp add: step)
qed

text \<open>The total the fold keeps for a day is the sum of the day's converted amounts.\<close>

lemma fold_dailyStep_total:
  "getOr0 (fst (fold (dailyStep convert main) es (data, mx))) d =
     getOr0 data d
       + sum_list (map (inMain convert main) (filter (\<lambda>e. isoDate (date e) = d) es))"
proof (induction es arbitrary: data mx)
  case Nil
  then show ?case by simp
next
  case (Cons e es)
  have step: "dailyStep convert main e (data, mx) =
      (data(isoDate (date e) \<mapsto> getOr0 data (isoDate (date e)) + inMain convert main e),
       if getOr0 data (isoDate (date e)) + inMain convert main e > mx
       then getOr0 data (isoDate (date e)) + inMain convert main e else mx)"
    by (simp add: dailyStep_def Let_def)
  show ?case
    by (simp add: step Cons.IH) (simp add: getOr0_def)
qed

text \<open>
  With amounts that are not negative a day's running total only grows, and the largest
  running total is the total of some day.
\<close>

lemma dailyStep_reached:
  assumes "\<exists>d. getOr0 data d = mx" and "0 \<le> inMain convert main e"
    and "dailyStep convert main e (data, mx) = (data', mx')"
  shows "\<exists>d. getOr0 data' d = mx'"
proof -
  let ?d = "isoDate (date e)"
  let ?new = "getOr0 data ?d + inMain convert main e"
  have data': "data' = data(?d \<mapsto> ?new)" and mx': "mx' = (if ?new > mx then ?new else mx)"
    using assms(3) by (simp_all add: dailyStep_def Let_def)
  from assms(1) obtain d0 where d0: "getOr0 data d0 = mx" by blast
  show ?thesis
  proof (cases "?new > mx")
    case True
    then have "getOr0 data' ?d = mx'"
      by (simp add: data' mx' getOr0_def)
    then show ?thesis by blast
  next
    case False
    show ?thesis
    proof (cases "d0 = ?d")
      case True
      with d0 assms(2) False have "?new = mx" by simp
      with False have "getOr0 data' ?d = mx'"
        by (simp add: data' mx' getOr0_def)
      then show ?thesis by blast
    next
      case other: False
      with d0 False have "getOr0 data' d0 = mx'"
        by (simp add: data' mx' getOr0_def)
      then show ?thesis by blast
    qed
  qed
qed

lemma fold_dailyStep_reached:
  "\<exists>d. getOr0 data d = mx \<Longrightarrow> \<forall>e\<in>set es. 0 \<le> inMain convert main e \<Longrightarrow>
   \<exists>d. getOr0 (fst (fold (dailyStep convert main) es (data, mx))) d =
         snd (fold (dailyStep convert main) es (data, mx))"
proof (induction es arbitrary: data mx)
  case Nil
  then show ?case by simp
next
  case (Cons e es)
  obtain data' mx' where step: "dailyStep convert main e (data, mx) = (data', mx')"
    by (cases "dailyStep convert main e (data, mx)")
  from Cons.prems(2) have e: "0 \<le> inMain convert main e"
    and rest: "\<forall>e\<in>set es. 0 \<le> inMain convert main e"
    by simp_all
  from dailyStep_reached[OF Cons.prems(1) e step]
  have "\<exists>d. getOr0 data' d = mx'" .
  from Cons.IH[OF this rest] show ?case by (simp add: step)
qed

lemma day_total:
  "getOr0 (dailyData convert main expenses) d = spec_dayTotal convert main expenses d"
  using fold_dailyStep_total[of convert main expenses Map.empty 0 d]
  by (simp add: dailyData_def dailyDataMax_def spec_dayTotal_def getOr0_def)

lemma day_total_le_maxSpend:
  "spec_dayTotal convert main expenses d \<le> maxSpend convert main expenses \<and>
   0 \<le> maxSpend convert main expenses"
  using fold_dailyStep_bound[of Map.empty 0 convert main expenses]
  by (simp add: day_total[symmetric] dailyData_def maxSpend_def dailyDataMax_def getOr0_def)

lemma maxSpend_reached:
  assumes "\<forall>e\<in>set expenses. 0 \<le> inMain convert main e"
  shows "\<exists>d. spec_dayTotal convert main expenses d = maxSpend convert main expenses"
proof -
  have "\<exists>d :: int. getOr0 Map.empty d = (0 :: real)"
    by (simp add: getOr0_def)
  from fold_dailyStep_reached[OF this assms] show ?thesis
    by (simp add: day_total[symmetric] dailyData_def maxSpend_def dailyDataMax_def)
qed

lemma spec_dayTotal_nonneg:
  assumes "\<forall>e\<in>set expenses. 0 \<le> inMain convert main e"
  shows "0 \<le> spec_dayTotal convert main expenses d"
  unfolding spec_dayTotal_def using assms by (intro sum_list_nonneg) auto

lemma getColor_spec:
  assumes "amnt \<le> mx"
  shows "getColor mx amnt =
           (if amnt \<le> 0 then SurfaceVariant50 else spec_band (spec_intensity amnt mx))"
  using assms by (auto simp: getColor_def spec_band_def spec_intensity_def Let_def)

text \<open>
  C7. The total the heatmap keeps for a day is the sum of the day's converted amounts, and
  for amounts that are not negative (the data model has \<open>amount > 0\<close>)
  \<^verbatim>\<open>maxSpend\<close> is the largest of the day totals: no day has more and some day has
  exactly that. For every day \<open>d\<close>: a day with no spend gets the no-spend colour; any
  other day gets the one of the four bands that the thresholds 0.25, 0.5 and 0.75 assign
  to the intensity \<open>sqrt (spentToday / maxSpentAnyDay)\<close>; the day whose total is the
  (positive) largest total gets the highest band, also when "largest" is said of the
  day totals themselves; and when the largest total is 0 the intensity is 0 and every
  day gets the no-spend colour.
\<close>

theorem heatmap_bands:
  "getOr0 (dailyData convert main expenses) d = spec_dayTotal convert main expenses d \<and>
   (\<forall>d'. spec_dayTotal convert main expenses d' \<le> maxSpend convert main expenses) \<and>
   ((\<forall>e\<in>set expenses. 0 \<le> inMain convert main e) \<longrightarrow>
      (\<exists>d'. spec_dayTotal convert main expenses d' = maxSpend convert main expenses)) \<and>
   (spec_dayTotal convert main expenses d \<le> 0 \<longrightarrow>
      getColor (maxSpend convert main expenses) (getOr0 (dailyData convert main expenses) d)
        = SurfaceVariant50) \<and>
   (0 < spec_dayTotal convert main expenses d \<longrightarrow>
      getColor (maxSpend convert main expenses) (getOr0 (dailyData convert main expenses) d)
        = spec_band (spec_intensity (spec_dayTotal convert main expenses d)
                       (maxSpend convert main expenses)) \<and>
      spec_intensity (spec_dayTotal convert main expenses d) (maxSpend convert main expenses)
        = sqrt (spec_dayTotal convert main expenses d / maxSpend convert main expenses)) \<and>
   (0 < maxSpend convert main expenses \<and>
    spec_dayTotal convert main expenses d = maxSpend convert main expenses \<longrightarrow>
      getColor (maxSpend convert main expenses) (getOr0 (dailyData convert main expenses) d)
        = Primary) \<and>
   (maxSpend convert main expenses = 0 \<longrightarrow>
      spec_intensity (spec_dayTotal convert main expenses d) (maxSpend convert main expenses)
        = 0 \<and>
      getColor (maxSpend convert main expenses) (getOr0 (dailyData convert main expenses) d)
        = SurfaceVariant50) \<and>
   ((\<forall>e\<in>set expenses. 0 \<le> inMain convert main e) \<and>
    (\<forall>d'. spec_dayTotal convert main expenses d' \<le> spec_dayTotal convert main expenses d) \<and>
    0 < spec_dayTotal convert main expenses d \<longrightarrow>
      getColor (maxSpend convert main expenses) (getOr0 (dailyData convert main expenses) d)
        = Primary)"
proof -
  define amnt where "amnt = spec_dayTotal convert main expenses d"
  define mx where "mx = maxSpend convert main expenses"
  have total: "getOr0 (dailyData convert main expenses) d = amnt"
    by (simp add: amnt_def day_total)
  have largest: "\<forall>d'. spec_dayTotal convert main expenses d' \<le> mx"
    using day_total_le_maxSpend[of convert main expenses] by (simp add: mx_def)
  have reached: "(\<forall>e\<in>set expenses. 0 \<le> inMain convert main e) \<longrightarrow>
      (\<exists>d'. spec_dayTotal convert main expenses d' = mx)"
    using maxSpend_reached[of expenses convert main] by (simp add: mx_def)
  have le: "amnt \<le> mx"
    using largest by (simp add: amnt_def)
  have 1: "amnt \<le> 0 \<longrightarrow> getColor mx amnt = SurfaceVariant50"
    by (simp add: getColor_def)
  have 2: "0 < amnt \<longrightarrow> getColor mx amnt = spec_band (spec_intensity amnt mx) \<and>
             spec_intensity amnt mx = sqrt (amnt / mx)"
    using le by (auto simp: getColor_spec spec_intensity_def)
  have 3: "0 < mx \<and> amnt = mx \<longrightarrow> getColor mx amnt = Primary"
    by (auto simp: getColor_def)
  have 4: "mx = 0 \<longrightarrow> spec_intensity amnt mx = 0 \<and> getColor mx amnt = SurfaceVariant50"
    using le by (auto simp: getColor_def spec_intensity_def)
  have 5: "(\<forall>e\<in>set expenses. 0 \<le> inMain convert main e) \<and>
      (\<forall>d'. spec_dayTotal convert main expenses d' \<le> amnt) \<and> 0 < amnt \<longrightarrow>
      getColor mx amnt = Primary"
  proof (intro impI)
    assume a: "(\<forall>e\<in>set expenses. 0 \<le> inMain convert main e) \<and>
      (\<forall>d'. spec_dayTotal convert main expenses d' \<le> amnt) \<and> 0 < amnt"
    with reached obtain d0 where "spec_dayTotal convert main expenses d0 = mx" by blast
    with a have "mx \<le> amnt" by auto
    with le have "amnt = mx" by simp
    with a 3 show "getColor mx amnt = Primary" by simp
  qed
  from largest reached 1 2 3 4 5 show ?thesis
    unfolding total unfolding amnt_def mx_def by blast
qed

lemma dailyDataMax_example:
  "maxSpend convert_example ''EUR'' expenses_example = 200 \<and>
   spec_dayTotal convert_example ''EUR'' expenses_example 19727 = 200 \<and>
   spec_dayTotal convert_example ''EUR'' expenses_example 19723 = 146 \<and>
   spec_dayTotal convert_example ''EUR'' expenses_example 19725 = 0"
  by (simp add: maxSpend_def dailyDataMax_def dailyStep_def spec_dayTotal_def
        expenses_example_def inMain_def convert_example_def isoDate_def DAY_def getOr0_def Let_def)

theorem heatmap_bands_witness:
  "list_all (\<lambda>e. 0 \<le> inMain convert_example ''EUR'' e) expenses_example \<and>
   spec_dayTotal convert_example ''EUR'' expenses_example 19727 = 200 \<and>
   maxSpend convert_example ''EUR'' expenses_example = 200 \<and>
   getOr0 (dailyData convert_example ''EUR'' expenses_example) 19727 = 200 \<and>
   getColor 200 200 = Primary \<and>
   getOr0 (dailyData convert_example ''EUR'' expenses_example) 19725 = 0 \<and>
   getColor 200 0 = SurfaceVariant50 \<and>
   getOr0 (dailyData convert_example ''EUR'' expenses_example) 19723 = 146 \<and>
   getColor 200 146 = spec_band (sqrt (146 / 200)) \<and>
   maxSpend convert_example ''EUR'' [] = 0 \<and>
   getColor (maxSpend convert_example ''EUR'' [])
     (getOr0 (dailyData convert_example ''EUR'' []) 19725) = SurfaceVariant50"
proof -
  have nn: "\<forall>e\<in>set expenses_example. 0 \<le> inMain convert_example ''EUR'' e"
    by (simp add: expenses_example_def inMain_def convert_example_def)
  have none: "maxSpend convert_example ''EUR'' [] = 0"
    by (simp add: maxSpend_def dailyDataMax_def)
  have quiet: "getColor (maxSpend convert_example ''EUR'' [])
     (getOr0 (dailyData convert_example ''EUR'' []) 19725) = SurfaceVariant50"
    using heatmap_bands[of convert_example "''EUR''" "[]" 19725] none by blast
  have days: "getOr0 (dailyData convert_example ''EUR'' expenses_example) 19727 = 200 \<and>
   getColor 200 200 = Primary \<and>
   getOr0 (dailyData convert_example ''EUR'' expenses_example) 19725 = 0 \<and>
   getColor 200 0 = SurfaceVariant50 \<and>
   getOr0 (dailyData convert_example ''EUR'' expenses_example) 19723 = 146 \<and>
   getColor 200 146 = spec_band (sqrt (146 / 200))"
    using heatmap_bands[of convert_example "''EUR''" expenses_example 19727]
          heatmap_bands[of convert_example "''EUR''" expenses_example 19725]
          heatmap_bands[of convert_example "''EUR''" expenses_example 19723]
    by (simp add: dailyDataMax_example day_total spec_band_def)
  from nn days none quiet dailyDataMax_example show ?thesis
    by (simp add: list_all_iff)
qed

text \<open>The comparisons of the square root with a threshold, as comparisons of squares.\<close>

lemma sqrt_less_threshold:
  assumes "0 \<le> x" and "0 \<le> thr"
  shows "sqrt x < thr \<longleftrightarrow> x < thr\<^sup>2"
proof -
  have "sqrt x < thr \<longleftrightarrow> sqrt x < sqrt (thr\<^sup>2)"
    using assms(2) by simp
  also have "\<dots> \<longleftrightarrow> x < thr\<^sup>2"
    by (rule real_sqrt_less_iff)
  finally show ?thesis .
qed

lemma getColor_squares:
  assumes "0 < mx" and "0 < amnt"
  shows "getColor mx amnt =
           (if amnt / mx < 1 / 16 then PrimaryContainer40
            else if amnt / mx < 1 / 4 then PrimaryContainer70
            else if amnt / mx < 9 / 16 then PrimaryContainer
            else Primary)"
proof -
  have q: "0 \<le> amnt / mx"
    using assms by simp
  have "sqrt (amnt / mx) < 0.25 \<longleftrightarrow> amnt / mx < 1 / 16"
    using sqrt_less_threshold[OF q, of "0.25"] by (simp add: power2_eq_square)
  moreover have "sqrt (amnt / mx) < 0.5 \<longleftrightarrow> amnt / mx < 1 / 4"
    using sqrt_less_threshold[OF q, of "0.5"] by (simp add: power2_eq_square)
  moreover have "sqrt (amnt / mx) < 0.75 \<longleftrightarrow> amnt / mx < 9 / 16"
    using sqrt_less_threshold[OF q, of "0.75"] by (simp add: power2_eq_square)
  ultimately show ?thesis
    using assms unfolding getColor_def Let_def by (simp only: if_False not_le[symmetric]) 
qed

lemma getColor_example:
  "getColor 200 10 = PrimaryContainer40 \<and> getColor 200 20 = PrimaryContainer70 \<and>
   getColor 200 100 = PrimaryContainer \<and> getColor 200 146 = Primary"
  by (simp add: getColor_squares)

section \<open>Properties of the country totals\<close>

lemma map_of_init_countries:
  "map_of (fold (\<lambda>c obj. AList.update c (0 :: real) obj) cs obj) k =
     (if k \<in> set cs then Some 0 else map_of obj k)"
  by (induction cs arbitrary: obj) (auto simp: update_conv)

lemma distinct_init_countries:
  "distinct (map fst obj) \<Longrightarrow>
   distinct (map fst (fold (\<lambda>c obj. AList.update c (0 :: real) obj) cs obj))"
  by (induction cs arbitrary: obj) (auto simp: distinct_update)

lemma map_of_countryStep:
  "map_of (countryStep currencyToCountry convert t e obj) k =
     (case map_of obj k of
        None \<Rightarrow> None
      | Some v \<Rightarrow>
          Some (v + (if resolveCountry currencyToCountry e = Some k
                     then inMain convert (mainCurrency t) e else 0)))"
  by (auto simp: countryStep_def update_conv split: option.splits)

lemma distinct_countryStep:
  "distinct (map fst obj) \<Longrightarrow>
   distinct (map fst (countryStep currencyToCountry convert t e obj))"
  by (auto simp: countryStep_def distinct_update split: option.splits)

lemma map_of_fold_countryStep:
  "map_of (fold (countryStep currencyToCountry convert t) es obj) k =
     (case map_of obj k of
        None \<Rightarrow> None
      | Some v \<Rightarrow>
          Some (v + sum_list (map (inMain convert (mainCurrency t))
                      (filter (\<lambda>e. resolveCountry currencyToCountry e = Some k) es))))"
proof (induction es arbitrary: obj)
  case Nil
  then show ?case by (simp split: option.splits)
next
  case (Cons e es)
  show ?case
    by (simp add: Cons.IH map_of_countryStep split: option.splits)
qed

lemma distinct_fold_countryStep:
  "distinct (map fst obj) \<Longrightarrow>
   distinct (map fst (fold (countryStep currencyToCountry convert t) es obj))"
  by (induction es arbitrary: obj) (simp_all add: distinct_countryStep)

lemma map_of_spendingByCountry:
  "map_of (spendingByCountry currencyToCountry convert t expenses) c =
     (if c \<in> set (countries t)
      then Some (spec_countryTotal currencyToCountry convert t expenses c) else None)"
  by (simp add: spendingByCountry_def map_of_fold_countryStep map_of_init_countries
        spec_countryTotal_def)

lemma distinct_spendingByCountry:
  "distinct (map fst (spendingByCountry currencyToCountry convert t expenses))"
  by (simp add: spendingByCountry_def distinct_fold_countryStep distinct_init_countries)

lemma set_spendingByCountry:
  "(c, a) \<in> set (spendingByCountry currencyToCountry convert t expenses) \<longleftrightarrow>
     c \<in> set (countries t) \<and> a = spec_countryTotal currencyToCountry convert t expenses c"
proof
  assume "(c, a) \<in> set (spendingByCountry currencyToCountry convert t expenses)"
  with distinct_spendingByCountry[of currencyToCountry convert t expenses]
  have "map_of (spendingByCountry currencyToCountry convert t expenses) c = Some a"
    by (rule map_of_is_SomeI)
  then show "c \<in> set (countries t) \<and> a = spec_countryTotal currencyToCountry convert t expenses c"
    by (simp add: map_of_spendingByCountry split: if_splits)
next
  assume "c \<in> set (countries t) \<and> a = spec_countryTotal currencyToCountry convert t expenses c"
  then have "map_of (spendingByCountry currencyToCountry convert t expenses) c = Some a"
    by (simp add: map_of_spendingByCountry)
  then show "(c, a) \<in> set (spendingByCountry currencyToCountry convert t expenses)"
    by (rule map_of_SomeD)
qed

lemma set_chartData_CountrySpend:
  assumes "1 < length (countries t)"
  shows "s \<in> set (chartData_CountrySpend currencyToCountry convert t expenses) \<longleftrightarrow>
           country_slice s \<in> set (countries t) \<and>
           amount_country s = spec_countryTotal currencyToCountry convert t expenses (country_slice s) \<and>
           0 < amount_country s"
proof -
  have "s \<in> set (chartData_CountrySpend currencyToCountry convert t expenses) \<longleftrightarrow>
          (country_slice s, amount_country s)
            \<in> set (spendingByCountry currencyToCountry convert t expenses) \<and> 0 < amount_country s"
    using assms by (cases s) (auto simp: chartData_CountrySpend_def set_sortDesc)
  then show ?thesis
    by (auto simp: set_spendingByCountry)
qed

lemma sorted_sortDesc: "sorted_wrt (\<lambda>a b. v b \<le> v a) (sortDesc v xs)"
proof -
  have "sorted (map (\<lambda>x. - v x) (sortDesc v xs))"
    unfolding sortDesc_def by (rule sorted_sort_key)
  then show ?thesis
    by (simp add: sorted_map)
qed

lemma countryStep_not_counted:
  assumes "fst ` set obj = set (countries t)" and "\<not> spec_counted currencyToCountry t e"
  shows "countryStep currencyToCountry convert t e obj = obj"
proof (cases "resolveCountry currencyToCountry e")
  case None
  then show ?thesis by (simp add: countryStep_def)
next
  case (Some c)
  with assms(2) have "c \<notin> set (countries t)"
    by (simp add: spec_counted_def)
  with assms(1) have "map_of obj c = None"
    by (simp add: map_of_eq_None_iff)
  with Some show ?thesis by (simp add: countryStep_def)
qed

lemma countryStep_keys:
  "fst ` set (countryStep currencyToCountry convert t e obj) = fst ` set obj"
proof -
  have "dom (map_of (countryStep currencyToCountry convert t e obj)) = dom (map_of obj)"
    by (auto simp: map_of_countryStep dom_def split: option.splits)
  then show ?thesis by (simp add: dom_map_of_conv_image_fst)
qed

lemma fold_countryStep_counted:
  "fst ` set obj = set (countries t) \<Longrightarrow>
   fold (countryStep currencyToCountry convert t) es obj =
     fold (countryStep currencyToCountry convert t) (filter (spec_counted currencyToCountry t) es) obj"
proof (induction es arbitrary: obj)
  case Nil
  then show ?case by simp
next
  case (Cons e es)
  show ?case
  proof (cases "spec_counted currencyToCountry t e")
    case True
    have "fst ` set (countryStep currencyToCountry convert t e obj) = set (countries t)"
      using Cons.prems by (simp add: countryStep_keys)
    from Cons.IH[OF this] True show ?thesis by simp
  next
    case False
    from countryStep_not_counted[OF Cons.prems False] Cons.IH[OF Cons.prems] False
    show ?thesis by simp
  qed
qed

lemma spendingByCountry_counted:
  "spendingByCountry currencyToCountry convert t expenses =
     spendingByCountry currencyToCountry convert t (filter (spec_counted currencyToCountry t) expenses)"
proof -
  have "dom (map_of (fold (\<lambda>c obj. AList.update c (0 :: real) obj) (countries t) [])) =
          set (countries t)"
    by (auto simp: map_of_init_countries dom_def)
  then have "fst ` set (fold (\<lambda>c obj. AList.update c (0 :: real) obj) (countries t) []) =
          set (countries t)"
    by (simp add: dom_map_of_conv_image_fst)
  from fold_countryStep_counted[OF this] show ?thesis
    by (simp add: spendingByCountry_def)
qed

text \<open>
  C8. The country of an expense is its own \<^verbatim>\<open>country\<close> field when that is present
  (and not the empty string), otherwise what the currency table gives for its currency.
  An expense whose country does not resolve, or resolves to a country the trip does not
  declare, changes nothing in the series: the series of a list is the series of its
  counted expenses. The function is total (no input makes it fail). Every amount of the
  series is the total, converted to the main currency, of the expenses of that country,
  and the series is sorted by descending amount.
\<close>

theorem country_aggregation:
  "(\<forall>c. country e = Some c \<and> c \<noteq> [] \<longrightarrow> resolveCountry currencyToCountry e = Some c) \<and>
   (country e = None \<or> country e = Some [] \<longrightarrow>
      resolveCountry currencyToCountry e =
        (case currencyToCountry (currency e) of
           None \<Rightarrow> None
         | Some c \<Rightarrow> if c \<noteq> [] then Some c else None)) \<and>
   chartData_CountrySpend currencyToCountry convert t expenses =
     chartData_CountrySpend currencyToCountry convert t
       (filter (spec_counted currencyToCountry t) expenses) \<and>
   (\<forall>s\<in>set (chartData_CountrySpend currencyToCountry convert t expenses).
      amount_country s =
        spec_countryTotal currencyToCountry convert t expenses (country_slice s)) \<and>
   sorted_wrt (\<lambda>a b. amount_country b \<le> amount_country a)
     (chartData_CountrySpend currencyToCountry convert t expenses)"
proof -
  have key: "\<forall>c. country e = Some c \<and> c \<noteq> [] \<longrightarrow> resolveCountry currencyToCountry e = Some c"
    by (simp add: resolveCountry_def)
  have fallback: "country e = None \<or> country e = Some [] \<longrightarrow>
      resolveCountry currencyToCountry e =
        (case currencyToCountry (currency e) of
           None \<Rightarrow> None
         | Some c \<Rightarrow> if c \<noteq> [] then Some c else None)"
    by (auto simp: resolveCountry_def)
  have counted: "chartData_CountrySpend currencyToCountry convert t expenses =
     chartData_CountrySpend currencyToCountry convert t
       (filter (spec_counted currencyToCountry t) expenses)"
    using spendingByCountry_counted[of currencyToCountry convert t expenses]
    by (simp add: chartData_CountrySpend_def)
  have amounts: "\<forall>s\<in>set (chartData_CountrySpend currencyToCountry convert t expenses).
      amount_country s = spec_countryTotal currencyToCountry convert t expenses (country_slice s)"
  proof (cases "1 < length (countries t)")
    case True
    then show ?thesis by (simp add: set_chartData_CountrySpend)
  next
    case False
    then show ?thesis by (simp add: chartData_CountrySpend_def)
  qed
  have sorted: "sorted_wrt (\<lambda>a b. amount_country b \<le> amount_country a)
     (chartData_CountrySpend currencyToCountry convert t expenses)"
    by (simp add: chartData_CountrySpend_def sorted_sortDesc)
  from key fallback counted amounts sorted show ?thesis by blast
qed

lemma spendingByCountry_example:
  "spendingByCountry currencyToCountry_example convert_example trip_example expenses_example =
     [(''Italia'', 100), (''USA'', 46), (''Francia'', 0)]"
  by (simp add: spendingByCountry_def countryStep_def resolveCountry_def trip_example_def
        expenses_example_def currencyToCountry_example_def inMain_def convert_example_def)

lemma chartData_CountrySpend_example:
  "chartData_CountrySpend currencyToCountry_example convert_example trip_example expenses_example =
     [\<lparr>country_slice = ''Italia'', amount_country = 100\<rparr>,
      \<lparr>country_slice = ''USA'', amount_country = 46\<rparr>]"
proof -
  have "1 < length (countries trip_example)"
    by (simp add: trip_example_def)
  then show ?thesis
    by (simp add: chartData_CountrySpend_def spendingByCountry_example sortDesc_def)
qed

lemma spec_counted_example:
  "filter (spec_counted currencyToCountry_example trip_example) expenses_example =
     [expenses_example ! 1, expenses_example ! 2]"
  by (simp add: spec_counted_def resolveCountry_def trip_example_def expenses_example_def
        currencyToCountry_example_def)

theorem country_aggregation_witness:
  "country (expenses_example ! 2) = Some ''Italia'' \<and>
   resolveCountry currencyToCountry_example (expenses_example ! 2) = Some ''Italia'' \<and>
   country (expenses_example ! 1) = None \<and>
   resolveCountry currencyToCountry_example (expenses_example ! 1) = Some ''USA'' \<and>
   resolveCountry currencyToCountry_example (expenses_example ! 0) = None \<and>
   chartData_CountrySpend currencyToCountry_example convert_example trip_example
       [expenses_example ! 1, expenses_example ! 2] =
     [\<lparr>country_slice = ''Italia'', amount_country = 100\<rparr>,
      \<lparr>country_slice = ''USA'', amount_country = 46\<rparr>]"
proof -
  have c2: "country (expenses_example ! 2) = Some ''Italia''"
    and c1: "country (expenses_example ! 1) = None"
    and c0: "country (expenses_example ! 0) = None"
    and t1: "currencyToCountry_example (currency (expenses_example ! 1)) = Some ''USA''"
    and t0: "currencyToCountry_example (currency (expenses_example ! 0)) = None"
    by (simp_all add: expenses_example_def currencyToCountry_example_def)
  show ?thesis
    using country_aggregation[of "expenses_example ! 2" currencyToCountry_example
            convert_example trip_example expenses_example]
          country_aggregation[of "expenses_example ! 1" currencyToCountry_example
            convert_example trip_example expenses_example]
          country_aggregation[of "expenses_example ! 0" currencyToCountry_example
            convert_example trip_example expenses_example]
          c2 c1 c0 t1 t0 spec_counted_example chartData_CountrySpend_example
    by simp
qed

text \<open>
  C10. With at most one declared country the series is empty, whatever the expenses.
  Otherwise every slice of the series is a declared country whose converted total is
  strictly positive, and every such country has a slice.
\<close>

theorem country_series_suppressed:
  "(length (countries t) \<le> 1 \<longrightarrow>
      chartData_CountrySpend currencyToCountry convert t expenses = []) \<and>
   (\<forall>s\<in>set (chartData_CountrySpend currencyToCountry convert t expenses).
      country_slice s \<in> set (countries t) \<and>
      0 < spec_countryTotal currencyToCountry convert t expenses (country_slice s)) \<and>
   (1 < length (countries t) \<longrightarrow>
      (\<forall>c. c \<in> country_slice ` set (chartData_CountrySpend currencyToCountry convert t expenses)
            \<longleftrightarrow> c \<in> set (countries t) \<and>
                0 < spec_countryTotal currencyToCountry convert t expenses c))"
proof (cases "1 < length (countries t)")
  case False
  then show ?thesis by (simp add: chartData_CountrySpend_def)
next
  case True
  have slices: "\<forall>s\<in>set (chartData_CountrySpend currencyToCountry convert t expenses).
      country_slice s \<in> set (countries t) \<and>
      0 < spec_countryTotal currencyToCountry convert t expenses (country_slice s)"
    by (auto simp: set_chartData_CountrySpend[OF True])
  have "c \<in> country_slice ` set (chartData_CountrySpend currencyToCountry convert t expenses)
          \<longleftrightarrow> c \<in> set (countries t) \<and> 0 < spec_countryTotal currencyToCountry convert t expenses c"
    for c
  proof
    assume "c \<in> country_slice ` set (chartData_CountrySpend currencyToCountry convert t expenses)"
    then show "c \<in> set (countries t) \<and> 0 < spec_countryTotal currencyToCountry convert t expenses c"
      using slices by auto
  next
    assume c: "c \<in> set (countries t) \<and> 0 < spec_countryTotal currencyToCountry convert t expenses c"
    let ?s = "\<lparr>country_slice = c,
               amount_country = spec_countryTotal currencyToCountry convert t expenses c\<rparr>"
    have "?s \<in> set (chartData_CountrySpend currencyToCountry convert t expenses)"
      using c by (simp add: set_chartData_CountrySpend[OF True])
    then have "country_slice ?s
        \<in> country_slice ` set (chartData_CountrySpend currencyToCountry convert t expenses)"
      by (rule imageI)
    then show "c \<in> country_slice ` set (chartData_CountrySpend currencyToCountry convert t expenses)"
      by simp
  qed
  with True slices show ?thesis by simp
qed

theorem country_series_suppressed_witness:
  "length (countries (trip_example\<lparr>countries := [''Italia'']\<rparr>)) \<le> 1 \<and>
   chartData_CountrySpend currencyToCountry_example convert_example
     (trip_example\<lparr>countries := [''Italia'']\<rparr>) expenses_example = [] \<and>
   1 < length (countries trip_example) \<and>
   ''Francia'' \<in> set (countries trip_example) \<and>
   spec_countryTotal currencyToCountry_example convert_example trip_example expenses_example
     ''Francia'' = 0 \<and>
   ''Francia'' \<notin> country_slice `
      set (chartData_CountrySpend currencyToCountry_example convert_example trip_example
             expenses_example) \<and>
   ''USA'' \<in> country_slice `
      set (chartData_CountrySpend currencyToCountry_example convert_example trip_example
             expenses_example)"
proof -
  have one: "length (countries (trip_example\<lparr>countries := [''Italia'']\<rparr>)) \<le> 1"
    by simp
  have more: "1 < length (countries trip_example)"
    and fr: "''Francia'' \<in> set (countries trip_example)"
    and us: "''USA'' \<in> set (countries trip_example)"
    by (simp_all add: trip_example_def)
  have tf: "spec_countryTotal currencyToCountry_example convert_example trip_example
              expenses_example ''Francia'' = 0"
    and tu: "spec_countryTotal currencyToCountry_example convert_example trip_example
              expenses_example ''USA'' = 46"
    by (simp_all add: spec_countryTotal_def resolveCountry_def expenses_example_def
          currencyToCountry_example_def inMain_def convert_example_def trip_example_def)
  show ?thesis
    using country_series_suppressed[of "trip_example\<lparr>countries := [''Italia'']\<rparr>"
            currencyToCountry_example convert_example expenses_example]
          country_series_suppressed[of trip_example currencyToCountry_example convert_example
            expenses_example]
          one more fr us tf tu
    by simp
qed

end
